theory Spec2Isabelle
  imports Complex_Main "HOL-Library.Sublist"
begin

section \<open>Strings\<close>

text \<open>
  A Python string is the list of its Unicode code points, so that \<open>length\<close> is
  Python's \<open>len\<close> and the sequence matcher compares code points. \<open>str\<close> embeds an
  ASCII literal of the program.
\<close>

type_synonym pystr = "int list"

definition str :: "string \<Rightarrow> pystr" where
  "str s = map of_char s"

definition is_space :: "int \<Rightarrow> bool" where
  \<comment> \<open>the code points for which \<open>str.isspace()\<close> holds\<close>
  "is_space c =
     ((9 \<le> c \<and> c \<le> 13) \<or> (28 \<le> c \<and> c \<le> 32) \<or> c = 0x85 \<or> c = 0xA0 \<or> c = 0x1680
      \<or> (0x2000 \<le> c \<and> c \<le> 0x200A) \<or> c = 0x2028 \<or> c = 0x2029 \<or> c = 0x202F
      \<or> c = 0x205F \<or> c = 0x3000)"

definition strip :: "pystr \<Rightarrow> pystr" where
  \<comment> \<open>\<open>str.strip()\<close>\<close>
  "strip s = rev (dropWhile is_space (rev (dropWhile is_space s)))"

definition contains :: "pystr \<Rightarrow> pystr \<Rightarrow> bool" where
  \<comment> \<open>\<open>q in t\<close> on strings: \<open>q\<close> is a contiguous part of \<open>t\<close>\<close>
  "contains q t = sublist q t"

section \<open>Values, floats and the Python runtime\<close>

text \<open>
  A Python float is a finite number, an infinity or NaN. A finite float is modelled by
  the rational number it stands for; the rounding of an arithmetic result to a float
  is left to the runtime (below). A comparison with NaN is false.
\<close>

datatype pyfloat = Fin rat | PInf | NInf | NaN

definition flt :: "pyfloat \<Rightarrow> pyfloat \<Rightarrow> bool" where
  \<comment> \<open>\<open>a < b\<close> on floats\<close>
  "flt a b =
     (case (a, b) of
        (NaN, _) \<Rightarrow> False
      | (_, NaN) \<Rightarrow> False
      | (Fin x, Fin y) \<Rightarrow> x < y
      | (Fin x, PInf) \<Rightarrow> True
      | (Fin x, NInf) \<Rightarrow> False
      | (PInf, _) \<Rightarrow> False
      | (NInf, NInf) \<Rightarrow> False
      | (NInf, _) \<Rightarrow> True)"

definition fge :: "pyfloat \<Rightarrow> pyfloat \<Rightarrow> bool" where
  \<comment> \<open>\<open>a >= b\<close> on floats\<close>
  "fge a b =
     (case (a, b) of
        (NaN, _) \<Rightarrow> False
      | (_, NaN) \<Rightarrow> False
      | (Fin x, Fin y) \<Rightarrow> y \<le> x
      | (Fin x, PInf) \<Rightarrow> False
      | (Fin x, NInf) \<Rightarrow> True
      | (PInf, _) \<Rightarrow> True
      | (NInf, NInf) \<Rightarrow> True
      | (NInf, _) \<Rightarrow> False)"

text \<open>
  The values the program passes between its stages are JSON values: Python's
  \<open>None\<close>, booleans, integers, floats, strings, lists and dictionaries with string keys.
  A dictionary keeps its keys in insertion order. \<open>json.load\<close> reads \<open>NaN\<close>,
  \<open>Infinity\<close> and \<open>-Infinity\<close> as floats.
\<close>

datatype json =
    JNull
  | JBool bool
  | JInt int
  | JFloat pyfloat
  | JStr pystr
  | JArr "json list"
  | JObj "(pystr \<times> json) list"

type_synonym dict = "(pystr \<times> json) list"

datatype exn =
    KeyError pystr
  | TypeError json
  | AttributeError json
  | ValueError json
  | OverflowError json
  | External pystr

text \<open>
  \<open>KeyError k\<close>: a dictionary has no key \<open>k\<close>. \<open>TypeError v\<close>: the value \<open>v\<close> does not
  support the operation (subscripting, item assignment, \<open>len\<close> or conversion to a
  float). \<open>AttributeError v\<close>: a method was called on a value that lacks it.
  \<open>ValueError v\<close> and \<open>OverflowError v\<close>: \<open>v\<close> is a string that is not a number, or an
  integer too large for a float. \<open>External m\<close>: an exception raised by the
  text-generation collaborator or by \<open>json.loads\<close>, with its message.
\<close>

record runtime =
  lower :: "pystr \<Rightarrow> pystr"
  upper :: "pystr \<Rightarrow> pystr"
  repr :: "json \<Rightarrow> pystr"
  fixed :: "nat \<Rightarrow> pyfloat \<Rightarrow> pystr"
  json_loads :: "pystr \<Rightarrow> exn + json"
  exn_text :: "exn \<Rightarrow> pystr"
  float_of_int :: "int \<Rightarrow> exn + pyfloat"
  float_of_str :: "pystr \<Rightarrow> exn + pyfloat"
  round_float :: "rat \<Rightarrow> pyfloat"

text \<open>
  The library functions of the Python runtime that the program calls are parameters of
  the model: \<open>lower\<close> and \<open>upper\<close> are \<open>str.lower()\<close> and \<open>str.upper()\<close> (Unicode case
  mapping), \<open>repr v\<close> is \<open>str(v)\<close> for a value that is not a string, \<open>fixed n x\<close> is
  \<open>format(x, ".nf")\<close>, \<open>json_loads\<close> is \<open>json.loads\<close>, \<open>exn_text e\<close> is \<open>str(e)\<close>,
  \<open>float_of_int\<close> and \<open>float_of_str\<close> are \<open>float(x)\<close> for an integer and for a string,
  and \<open>round_float\<close> rounds the exact result of an operation on finite floats to a
  float (an infinity when it is out of range).
\<close>

definition to_float :: "runtime \<Rightarrow> json \<Rightarrow> exn + pyfloat" where
  \<comment> \<open>\<open>float(v)\<close>\<close>
  "to_float rt v =
     (case v of
        JBool b \<Rightarrow> Inr (Fin (if b then 1 else 0))
      | JInt n \<Rightarrow> float_of_int rt n
      | JFloat x \<Rightarrow> Inr x
      | JStr s \<Rightarrow> float_of_str rt s
      | _ \<Rightarrow> Inl (TypeError v))"

definition fsub :: "runtime \<Rightarrow> pyfloat \<Rightarrow> pyfloat \<Rightarrow> pyfloat" where
  \<comment> \<open>\<open>a - b\<close> on floats\<close>
  "fsub rt a b =
     (case (a, b) of
        (NaN, _) \<Rightarrow> NaN
      | (_, NaN) \<Rightarrow> NaN
      | (Fin x, Fin y) \<Rightarrow> round_float rt (x - y)
      | (Fin x, PInf) \<Rightarrow> NInf
      | (Fin x, NInf) \<Rightarrow> PInf
      | (PInf, PInf) \<Rightarrow> NaN
      | (PInf, _) \<Rightarrow> PInf
      | (NInf, NInf) \<Rightarrow> NaN
      | (NInf, _) \<Rightarrow> NInf)"

definition format_value :: "runtime \<Rightarrow> json \<Rightarrow> pystr" where
  \<comment> \<open>a replacement field \<open>{v}\<close> of an f-string\<close>
  "format_value rt v = (case v of JStr s \<Rightarrow> s | _ \<Rightarrow> repr rt v)"

definition truthy :: "json \<Rightarrow> bool" where
  "truthy v =
     (case v of
        JNull \<Rightarrow> False
      | JBool b \<Rightarrow> b
      | JInt n \<Rightarrow> n \<noteq> 0
      | JFloat x \<Rightarrow> x \<noteq> Fin 0
      | JStr s \<Rightarrow> s \<noteq> []
      | JArr xs \<Rightarrow> xs \<noteq> []
      | JObj d \<Rightarrow> d \<noteq> [])"

definition get :: "dict \<Rightarrow> pystr \<Rightarrow> json \<Rightarrow> json" where
  \<comment> \<open>\<open>d.get(k, dflt)\<close>; \<open>d.get(k)\<close> is \<open>get d k JNull\<close>\<close>
  "get d k dflt = (case map_of d k of None \<Rightarrow> dflt | Some v \<Rightarrow> v)"

fun set_key :: "pystr \<Rightarrow> json \<Rightarrow> dict \<Rightarrow> dict" where
  \<comment> \<open>\<open>d[k] = v\<close> on a dictionary: the key keeps its place, a new key goes last\<close>
  "set_key k v [] = [(k, v)]"
| "set_key k v ((k', v') # d) = (if k' = k then (k, v) # d else (k', v') # set_key k v d)"

definition subscript :: "json \<Rightarrow> pystr \<Rightarrow> exn + json" where
  \<comment> \<open>\<open>x[k]\<close> with a string key\<close>
  "subscript x k =
     (case x of
        JObj d \<Rightarrow> (case map_of d k of None \<Rightarrow> Inl (KeyError k) | Some v \<Rightarrow> Inr v)
      | _ \<Rightarrow> Inl (TypeError x))"

definition set_item :: "json \<Rightarrow> pystr \<Rightarrow> json \<Rightarrow> exn + json" where
  \<comment> \<open>\<open>x[k] = v\<close> with a string key\<close>
  "set_item x k v = (case x of JObj d \<Rightarrow> Inr (JObj (set_key k v d)) | _ \<Rightarrow> Inl (TypeError x))"

definition py_len :: "json \<Rightarrow> exn + nat" where
  "py_len x =
     (case x of
        JStr s \<Rightarrow> Inr (length s)
      | JArr xs \<Rightarrow> Inr (length xs)
      | JObj d \<Rightarrow> Inr (length d)
      | _ \<Rightarrow> Inl (TypeError x))"

definition rupee :: pystr where
  \<comment> \<open>the rupee sign U+20B9\<close>
  "rupee = [0x20B9]"

section \<open>The sequence matcher of Python's difflib\<close>

text \<open>
  \<open>get_similarity_score\<close> calls \<open>difflib.SequenceMatcher(None, q, t).ratio()\<close>. The
  matcher is transcribed from \<open>Lib/difflib.py\<close> of CPython, for \<open>isjunk = None\<close> and
  \<open>autojunk = True\<close>, which is how the program constructs it. A window
  \<open>a[alo:ahi]\<close>, \<open>b[blo:bhi]\<close> is modelled by the two slices themselves, with indices
  relative to the window.
\<close>

definition popular :: "pystr \<Rightarrow> int \<Rightarrow> bool" where
  \<comment> \<open>\<open>__chain_b\<close>: in a second sequence of 200 or more elements, the elements that occur
      more than \<open>n // 100 + 1\<close> times are removed from the index \<open>b2j\<close>\<close>
  "popular b c = (200 \<le> length b \<and> length b div 100 + 1 < count_list b c)"

definition row :: "(int \<Rightarrow> bool) \<Rightarrow> int \<Rightarrow> pystr \<Rightarrow> nat list \<Rightarrow> nat list" where
  \<comment> \<open>\<open>newj2len\<close> for one element \<open>x\<close> of \<open>a\<close>: at every \<open>j\<close> in \<open>b2j[x]\<close> the entry is
      \<open>j2len.get(j - 1, 0) + 1\<close>; an absent entry is written 0\<close>
  "row pop x ys prev =
     map (\<lambda>(y, p). if y = x \<and> \<not> pop y then p + 1 else 0) (zip ys (0 # prev))"

fun scan_row :: "nat \<Rightarrow> nat list \<Rightarrow> nat \<Rightarrow> nat \<times> nat \<times> nat \<Rightarrow> nat \<times> nat \<times> nat" where
  \<comment> \<open>the update \<open>if k > bestsize: besti, bestj, bestsize = i-k+1, j-k+1, k\<close>, for
      ascending \<open>j\<close>\<close>
  "scan_row i [] j best = best"
| "scan_row i (k # ks) j (besti, bestj, bestsize) =
     scan_row i ks (j + 1)
       (if k > bestsize then (i + 1 - k, j + 1 - k, k) else (besti, bestj, bestsize))"

fun longest_scan ::
  "(int \<Rightarrow> bool) \<Rightarrow> pystr \<Rightarrow> pystr \<Rightarrow> nat \<Rightarrow> nat list \<Rightarrow> nat \<times> nat \<times> nat \<Rightarrow> nat \<times> nat \<times> nat" where
  \<comment> \<open>the loop \<open>for i in range(alo, ahi)\<close> of \<open>find_longest_match\<close>\<close>
  "longest_scan pop [] ys i prev best = best"
| "longest_scan pop (x # xs) ys i prev best =
     (let r = row pop x ys prev in longest_scan pop xs ys (i + 1) r (scan_row i r 0 best))"

fun extend_left :: "pystr \<Rightarrow> pystr \<Rightarrow> nat \<Rightarrow> nat \<Rightarrow> nat \<Rightarrow> nat \<times> nat \<times> nat" where
  \<comment> \<open>\<open>while besti > alo and bestj > blo and a[besti-1] == b[bestj-1]\<close>\<close>
  "extend_left xs ys (Suc i) (Suc j) k =
     (if xs ! i = ys ! j then extend_left xs ys i j (k + 1) else (Suc i, Suc j, k))"
| "extend_left xs ys i j k = (i, j, k)"

function extend_right :: "pystr \<Rightarrow> pystr \<Rightarrow> nat \<Rightarrow> nat \<Rightarrow> nat \<Rightarrow> nat \<times> nat \<times> nat" where
  \<comment> \<open>\<open>while besti+bestsize < ahi and bestj+bestsize < bhi and
      a[besti+bestsize] == b[bestj+bestsize]\<close>\<close>
  "extend_right xs ys i j k =
     (if i + k < length xs \<and> j + k < length ys \<and> xs ! (i + k) = ys ! (j + k)
      then extend_right xs ys i j (k + 1) else (i, j, k))"
  by pat_completeness auto
termination
  by (relation "measure (\<lambda>(xs, ys, i, j, k). length xs - (i + k))") auto

definition find_longest_match :: "(int \<Rightarrow> bool) \<Rightarrow> pystr \<Rightarrow> pystr \<Rightarrow> nat \<times> nat \<times> nat" where
  \<comment> \<open>\<open>j2len\<close> starts empty (every entry absent, written 0); no element is junk, so the
      two loops over junk elements never run\<close>
  "find_longest_match pop xs ys =
     (case longest_scan pop xs ys 0 (replicate (length ys) 0) (0, 0, 0) of (i, j, k) \<Rightarrow>
        (case extend_left xs ys i j k of (i', j', k') \<Rightarrow> extend_right xs ys i' j' k'))"

function matching_blocks ::
  "(int \<Rightarrow> bool) \<Rightarrow> nat \<Rightarrow> nat \<Rightarrow> pystr \<Rightarrow> pystr \<Rightarrow> (nat \<times> nat \<times> nat) list" where
  \<comment> \<open>\<open>get_matching_blocks\<close>: the longest match of the window, then the windows to its
      left and to its right. The source keeps the pending windows on a stack, sorts the
      blocks and merges adjacent ones; none of that changes the sum of the sizes, which is
      all that \<open>ratio\<close> reads.\<close>
  "matching_blocks pop alo blo xs ys =
     (case find_longest_match pop xs ys of (i, j, k) \<Rightarrow>
        if k = 0 then []
        else (alo + i, blo + j, k)
           # (if 0 < i \<and> 0 < j then matching_blocks pop alo blo (take i xs) (take j ys) else [])
           @ (if i + k < length xs \<and> j + k < length ys
              then matching_blocks pop (alo + i + k) (blo + j + k) (drop (i + k) xs) (drop (j + k) ys)
              else []))"
  by pat_completeness auto
termination
proof -
  have row_le: "k \<le> n + 1"
    if "\<And>p. p \<in> set prev \<Longrightarrow> p \<le> n" and "k \<in> set (row pop x ys prev)"
    for pop x ys prev and n k :: nat
    using that unfolding row_def by (auto dest!: set_zip_rightD split: if_splits)
  have scan_le: "fst (scan_row i ks j best) + snd (snd (scan_row i ks j best)) \<le> i + 1"
    if "\<And>k. k \<in> set ks \<Longrightarrow> k \<le> i + 1" and "fst best + snd (snd best) \<le> i + 1"
    for i ks j best
    using that by (induction i ks j best rule: scan_row.induct) auto
  have loop_le:
    "fst (longest_scan pop xs ys i prev best) + snd (snd (longest_scan pop xs ys i prev best))
       \<le> i + length xs"
    if "\<And>p. p \<in> set prev \<Longrightarrow> p \<le> i" and "fst best + snd (snd best) \<le> i"
    for pop xs ys i prev best
    using that
  proof (induction xs arbitrary: i prev best)
    case Nil
    then show ?case by simp
  next
    case (Cons x xs)
    let ?r = "row pop x ys prev"
    have r: "\<And>k. k \<in> set ?r \<Longrightarrow> k \<le> i + 1"
      using row_le Cons.prems(1) by blast
    have b: "fst (scan_row i ?r 0 best) + snd (snd (scan_row i ?r 0 best)) \<le> i + 1"
      by (rule scan_le) (use r Cons.prems(2) in auto)
    show ?case
      using Cons.IH [of ?r "i + 1" "scan_row i ?r 0 best"] r b by (simp add: Let_def)
  qed
  have left_eq: "fst (extend_left xs ys i j k) + snd (snd (extend_left xs ys i j k)) = i + k"
    for xs ys i j k
    by (induction xs ys i j k rule: extend_left.induct) auto
  have right_le:
    "fst (extend_right xs ys i j k) + snd (snd (extend_right xs ys i j k)) \<le> length xs"
    if "i + k \<le> length xs" for xs ys i j k
    using that
  proof (induction xs ys i j k rule: extend_right.induct)
    case (1 xs ys i j k)
    then show ?case
      by (simp del: extend_right.simps add: extend_right.simps [of xs ys i j k])
  qed
  have bound: "i + k \<le> length xs" if h: "find_longest_match pop xs ys = (i, j, k)"
    for pop xs ys i j k
  proof -
    obtain i0 j0 k0 where s: "longest_scan pop xs ys 0 (replicate (length ys) 0) (0, 0, 0) = (i0, j0, k0)"
      by (cases "longest_scan pop xs ys 0 (replicate (length ys) 0) (0, 0, 0)") auto
    obtain i1 j1 k1 where l: "extend_left xs ys i0 j0 k0 = (i1, j1, k1)"
      by (cases "extend_left xs ys i0 j0 k0") auto
    have "i0 + k0 \<le> length xs"
      using loop_le [of "replicate (length ys) 0" 0 "(0, 0, 0)" pop xs ys] s by simp
    then have "i1 + k1 \<le> length xs"
      using left_eq [of xs ys i0 j0 k0] l by simp
    then show ?thesis
      using right_le [of i1 k1 xs ys j1] h s l by (simp add: find_longest_match_def)
  qed
  show ?thesis
  proof (relation "measure (\<lambda>(pop, alo, blo, xs, ys). length xs)")
    show "wf (measure (\<lambda>(pop, alo, blo, xs, ys). length xs))" by simp
  next
    fix pop :: "int \<Rightarrow> bool" and alo blo :: nat and xs ys :: pystr and x i y j k
    assume "(i, y) = find_longest_match pop xs ys" "(j, k) = y" "k \<noteq> 0" "0 < i \<and> 0 < j"
    then have "i + k \<le> length xs" using bound [of pop xs ys i j k] by simp
    with \<open>k \<noteq> 0\<close>
    show "((pop, alo, blo, take i xs, take j ys), (pop, alo, blo, xs, ys))
            \<in> measure (\<lambda>(pop, alo, blo, xs, ys). length xs)"
      by simp
  next
    fix pop :: "int \<Rightarrow> bool" and alo blo :: nat and xs ys :: pystr and x i y j k
    assume "(i, y) = find_longest_match pop xs ys" "(j, k) = y" "k \<noteq> 0"
      "i + k < length xs \<and> j + k < length ys"
    then show "((pop, alo + i + k, blo + j + k, drop (i + k) xs, drop (j + k) ys), (pop, alo, blo, xs, ys))
            \<in> measure (\<lambda>(pop, alo, blo, xs, ys). length xs)"
      by auto
  qed
qed

definition ratio :: "pystr \<Rightarrow> pystr \<Rightarrow> rat" where
  \<comment> \<open>\<open>SequenceMatcher(None, a, b).ratio()\<close>, with \<open>_calculate_ratio\<close> unfolded\<close>
  "ratio a b =
     (let matches = sum_list (map (\<lambda>(i, j, k). k) (matching_blocks (popular b) 0 0 a b));
          len = length a + length b
      in if len \<noteq> 0 then 2 * of_nat matches / of_nat len else 1)"

section \<open>The Jan Aushadhi finder: similarity score\<close>

text \<open>
  A score is \<open>ratio() * 100\<close>, a float between 0 and 100 computed from two lengths; it
  is modelled by the rational number it stands for.
\<close>

definition get_similarity_score :: "runtime \<Rightarrow> pystr \<Rightarrow> pystr \<Rightarrow> rat" where
  "get_similarity_score rt query target =
     (let q = strip (lower rt query);
          t = strip (lower rt target);
          base_score = ratio q t * 100
      in if length q > 4 \<and> contains q t then max base_score 95 else base_score)"

section \<open>The Jan Aushadhi finder: catalog search\<close>

text \<open>
  A catalog entry is a dictionary read from the catalog file. The finder reads five
  keys, each of which may be absent: the names are strings, the brands a list of
  strings; the prices and the savings percentage are whatever JSON values the file
  holds.
\<close>

record catalog_entry =
  generic_name :: "pystr option"
  common_brands :: "pystr list option"
  jan_price :: "json option"
  market_avg_price :: "json option"
  savings_percentage :: "json option"

datatype catalog_file = FileNotFound | InvalidJson | Loaded "catalog_entry list"

definition load_jan_aushadhi_db :: "catalog_file \<Rightarrow> catalog_entry list" where
  \<comment> \<open>the argument is what opening and decoding \<open>data/jan_aushadhi.json\<close> gives\<close>
  "load_jan_aushadhi_db file =
     (case file of FileNotFound \<Rightarrow> [] | InvalidJson \<Rightarrow> [] | Loaded db \<Rightarrow> db)"

fun best_brand :: "runtime \<Rightarrow> pystr \<Rightarrow> pystr list \<Rightarrow> rat \<times> pystr \<Rightarrow> rat \<times> pystr" where
  \<comment> \<open>the loop over \<open>record.get('common_brands', [])\<close>; the pair is
      \<open>(brand_score, current_best_brand)\<close>\<close>
  "best_brand rt query_drug [] acc = acc"
| "best_brand rt query_drug (brand # brands) (brand_score, current_best_brand) =
     (let b_score = get_similarity_score rt query_drug brand
      in best_brand rt query_drug brands
           (if b_score > brand_score then (b_score, brand) else (brand_score, current_best_brand)))"

definition score_record :: "runtime \<Rightarrow> pystr \<Rightarrow> catalog_entry \<Rightarrow> rat \<times> pystr" where
  \<comment> \<open>steps 1 to 3 of the loop body: \<open>(current_record_score, current_source)\<close>\<close>
  "score_record rt query_drug record =
     (let name = (case generic_name record of None \<Rightarrow> [] | Some g \<Rightarrow> g);
          generic_score = get_similarity_score rt query_drug name;
          (brand_score, current_best_brand) =
             best_brand rt query_drug (case common_brands record of None \<Rightarrow> [] | Some bs \<Rightarrow> bs) (0, [])
      in if generic_score > brand_score
         then (generic_score, str ''Generic Match ('' @ name @ str '')'')
         else (brand_score, str ''Brand Match ('' @ current_best_brand @ str '')''))"

fun scan_records ::
  "runtime \<Rightarrow> pystr \<Rightarrow> catalog_entry list \<Rightarrow> catalog_entry option \<times> rat \<times> pystr
     \<Rightarrow> catalog_entry option \<times> rat \<times> pystr" where
  \<comment> \<open>the loop over the catalog; the triple is
      \<open>(best_match, highest_score, matched_name_source)\<close>\<close>
  "scan_records rt query_drug [] acc = acc"
| "scan_records rt query_drug (record # records) (best_match, highest_score, matched_name_source) =
     (let (current_record_score, current_source) = score_record rt query_drug record
      in scan_records rt query_drug records
           (if current_record_score > highest_score
            then (Some record, current_record_score, current_source)
            else (best_match, highest_score, matched_name_source)))"

definition price :: "runtime \<Rightarrow> json option \<Rightarrow> exn + pyfloat" where
  \<comment> \<open>\<open>float(best_match.get(key, 0))\<close>\<close>
  "price rt p = to_float rt (case p of None \<Rightarrow> JInt 0 | Some v \<Rightarrow> v)"

definition search_jan_aushadhi ::
  "runtime \<Rightarrow> catalog_file \<Rightarrow> pystr \<Rightarrow> catalog_entry list option \<Rightarrow> exn + dict" where
  "search_jan_aushadhi rt file query_drug medicine_database =
     (let db = (case medicine_database of None \<Rightarrow> load_jan_aushadhi_db file | Some d \<Rightarrow> d)
      in if db = []
         then Inr [(str ''found'', JBool False), (str ''message'', JStr (str ''Database unavailable.''))]
         else
           (case scan_records rt query_drug db (None, 0, []) of
              (best_match, highest_score, matched_name_source) \<Rightarrow>
                if highest_score \<ge> 85 then
                  (case best_match of
                     None \<Rightarrow> Inl (AttributeError JNull)
                   | Some best \<Rightarrow>
                       (case price rt (jan_price best) of
                          Inl e \<Rightarrow> Inl e
                        | Inr jan \<Rightarrow>
                            (case price rt (market_avg_price best) of
                               Inl e \<Rightarrow> Inl e
                             | Inr market \<Rightarrow>
                                 (let savings_amount = fsub rt market jan
                                  in if flt savings_amount (Fin 0)
                                     then Inr [(str ''found'', JBool False),
                                               (str ''message'', JStr
                                                  (str ''Generic found but offers no savings.''))]
                                     else
                                       (case generic_name best of
                                          None \<Rightarrow> Inl (KeyError (str ''generic_name''))
                                        | Some name \<Rightarrow>
                                            Inr [(str ''found'', JBool True),
                                                 (str ''drug_data'', JObj
                                                    [(str ''generic_name'', JStr name),
                                                     (str ''brand_name_detected'', JStr query_drug),
                                                     (str ''match_source'', JStr matched_name_source),
                                                     (str ''jan_aushadhi_price'',
                                                        JStr (rupee @ repr rt (JFloat jan))),
                                                     (str ''market_average_price'',
                                                        JStr (rupee @ repr rt (JFloat market))),
                                                     (str ''savings_amount'',
                                                        JStr (rupee @ fixed rt 2 savings_amount)),
                                                     (str ''savings_percentage'',
                                                        (case savings_percentage best of
                                                           None \<Rightarrow> JStr (str ''0%'') | Some p \<Rightarrow> p))]),
                                                 (str ''message'', JStr
                                                    (str ''Switch Available: Jan Aushadhi '' @ name
                                                     @ str '' costs '' @ rupee @ repr rt (JFloat jan)
                                                     @ str '' (vs '' @ rupee @ repr rt (JFloat market)
                                                     @ str ''). Save '' @ rupee
                                                     @ fixed rt 2 savings_amount @ str ''.''))])))))
                else Inr [(str ''found'', JBool False),
                          (str ''message'', JStr
                             (str ''No direct Jan Aushadhi substitute found. (Best match: ''
                              @ fixed rt 1 (Fin highest_score) @ str ''%)''))]))"

section \<open>The PubMed researcher\<close>

fun join :: "pystr \<Rightarrow> pystr list \<Rightarrow> pystr" where
  \<comment> \<open>\<open>sep.join(parts)\<close>\<close>
  "join sep [] = []"
| "join sep [x] = x"
| "join sep (x # y # ys) = x @ sep @ join sep (y # ys)"

fun split_words :: "pystr \<Rightarrow> pystr \<Rightarrow> pystr list" where
  \<comment> \<open>\<open>str.split()\<close>: the maximal runs of characters that are not white space;
      the first argument is the run being read\<close>
  "split_words cur [] = (if cur = [] then [] else [cur])"
| "split_words cur (c # cs) =
     (if is_space c then (if cur = [] then split_words [] cs else cur # split_words [] cs)
      else split_words (cur @ [c]) cs)"

function strip_tags :: "pystr \<Rightarrow> pystr" where
  \<comment> \<open>\<open>re.sub(r'<[^>]+>', '', text)\<close>: a match starts at a \<open><\<close> that is followed by one
      or more characters other than \<open>>\<close> and then a \<open>>\<close>\<close>
  "strip_tags [] = []"
| "strip_tags (c # cs) =
     (if c = 0x3C \<and> takeWhile (\<lambda>x. x \<noteq> 0x3E) cs \<noteq> []
         \<and> dropWhile (\<lambda>x. x \<noteq> 0x3E) cs \<noteq> []
      then strip_tags (tl (dropWhile (\<lambda>x. x \<noteq> 0x3E) cs))
      else c # strip_tags cs)"
  by pat_completeness auto
termination
proof (relation "measure length")
  show "wf (measure length)" by simp
next
  fix c :: int and cs :: pystr
  have "length (dropWhile (\<lambda>x. x \<noteq> 0x3E) cs) \<le> length cs"
    by (rule length_dropWhile_le)
  then show "(tl (dropWhile (\<lambda>x. x \<noteq> 0x3E) cs), c # cs) \<in> measure length"
    by simp
next
  fix c :: int and cs :: pystr
  show "(cs, c # cs) \<in> measure length" by simp
qed

definition clean_xml_text :: "pystr option \<Rightarrow> pystr" where
  \<comment> \<open>the argument is \<open>None\<close> for an element without text\<close>
  "clean_xml_text text =
     (case text of
        None \<Rightarrow> []
      | Some t \<Rightarrow> if t = [] then [] else join (str '' '') (split_words [] (strip_tags t)))"

text \<open>
  The external literature index answers two requests. A search answers with the
  identifier list of the response (\<open>None\<close> when the request, its status check or the
  decoding of the response raises); a fetch answers with the \<open>PubmedArticle\<close>
  elements of the XML document (\<open>None\<close> when the request or the XML parser raises).
  The index has a state of its own, which every request may change.
\<close>

record pub_date =
  year_elem :: "pystr option option"
  month_elem :: "pystr option option"

record article_elem =
  pmid_elem :: "pystr option option"
  title_elem :: "pystr option option"
  iso_abbreviation_elem :: "pystr option option"
  journal_title_elem :: "pystr option option"
  pub_date_elem :: "pub_date option"
  abstract_texts :: "(pystr option \<times> pystr option) list"

text \<open>
  A field of an element is \<open>None\<close> when \<open>find\<close> returns no element, and
  \<open>Some text\<close> otherwise, where the text itself is \<open>None\<close> for an empty element.
  An \<open>AbstractText\<close> element is its \<open>Label\<close> attribute and its text.
\<close>

record 's index =
  esearch :: "'s \<Rightarrow> pystr \<Rightarrow> pystr list option \<times> 's"
  efetch :: "'s \<Rightarrow> pystr list \<Rightarrow> article_elem list option \<times> 's"

definition dquote :: pystr where
  "dquote = [0x22]"

definition search_pubmed_ids :: "'s index \<Rightarrow> 's \<Rightarrow> pystr \<Rightarrow> bool \<Rightarrow> pystr list \<times> 's" where
  "search_pubmed_ids idx s query strict_mode =
     (let date_filter = (str '' AND ('') @ dquote @ (str ''2015/01/01'') @ dquote @ (str ''[Date - Publication] : '')
                        @ dquote @ (str ''3000'') @ dquote @ (str ''[Date - Publication])'');
          quality_filter =
            (if strict_mode
             then (str '' AND (Systematic Review[pt] OR Guideline[pt] OR Clinical Trial[pt] OR Meta-Analysis[pt])'')
             else []);
          language_filter = (str '' AND English[Language]'');
          final_query = (str ''('') @ query @ (str '')'') @ quality_filter @ date_filter @ language_filter
      in case esearch idx s final_query of
           (None, s') \<Rightarrow> ([], s')
         | (Some idlist, s') \<Rightarrow> (idlist, s'))"

definition text_or_none :: "pystr option \<Rightarrow> pystr" where
  \<comment> \<open>a replacement field of an f-string whose value is a string or \<open>None\<close>\<close>
  "text_or_none t = (case t of None \<Rightarrow> (str ''None'') | Some s \<Rightarrow> s)"

definition str_or_null :: "pystr option \<Rightarrow> json" where
  "str_or_null t = (case t of None \<Rightarrow> JNull | Some s \<Rightarrow> JStr s)"

definition abstract_part :: "runtime \<Rightarrow> pystr option \<times> pystr option \<Rightarrow> pystr" where
  "abstract_part rt abs_text =
     (let label = (case fst abs_text of None \<Rightarrow> [] | Some l \<Rightarrow> l);
          text = (case snd abs_text of None \<Rightarrow> [] | Some t \<Rightarrow> t)
      in if label \<noteq> [] then upper rt label @ (str '': '') @ text else text)"

definition format_article :: "runtime \<Rightarrow> article_elem \<Rightarrow> json option" where
  \<comment> \<open>the body of the loop over the articles; \<open>None\<close> when it raises (an article
      without \<open>PubDate\<close>) and the article is skipped\<close>
  "format_article rt a =
     (let pmid = (case pmid_elem a of None \<Rightarrow> Some (str ''Unknown'') | Some t \<Rightarrow> t);
          title = clean_xml_text (case title_elem a of None \<Rightarrow> Some (str ''No Title'') | Some t \<Rightarrow> t);
          journal_elem =
            (case iso_abbreviation_elem a of None \<Rightarrow> journal_title_elem a | Some t \<Rightarrow> Some t);
          journal = (case journal_elem of None \<Rightarrow> Some (str ''Unknown Journal'') | Some t \<Rightarrow> t)
      in case pub_date_elem a of
           None \<Rightarrow> None
         | Some d \<Rightarrow>
             (let pub_date =
                    strip (text_or_none (case year_elem d of None \<Rightarrow> Some (str ''Unknown'') | Some t \<Rightarrow> t)
                           @ (str '' '')
                           @ text_or_none (case month_elem d of None \<Rightarrow> Some [] | Some t \<Rightarrow> t));
                  abstract =
                    (if abstract_texts a \<noteq> []
                     then clean_xml_text (Some (join [0x0A] (map (abstract_part rt) (abstract_texts a))))
                     else (str ''No Abstract Available.''))
              in Some (JObj
                   [(str ''pmid'', str_or_null pmid),
                    (str ''title'', JStr title),
                    (str ''journal'', str_or_null journal),
                    (str ''pub_date'', JStr pub_date),
                    (str ''abstract'', JStr abstract),
                    (str ''url'', JStr (str ''https://pubmed.ncbi.nlm.nih.gov/'' @ text_or_none pmid @ (str ''/'')))])))"

definition fetch_article_details :: "runtime \<Rightarrow> 's index \<Rightarrow> 's \<Rightarrow> pystr list \<Rightarrow> json list \<times> 's" where
  "fetch_article_details rt idx s id_list =
     (if id_list = [] then ([], s)
      else case efetch idx s id_list of
             (None, s') \<Rightarrow> ([], s')
           | (Some doc, s') \<Rightarrow> (List.map_filter (format_article rt) doc, s'))"

datatype json_text = Dumps json | Raw pystr

text \<open>
  A text that holds JSON: \<open>Dumps v\<close> is the text \<open>json.dumps(v)\<close>, \<open>Raw s\<close> is any
  other text. Decoding the first gives \<open>v\<close> back; decoding the second is up to
  \<open>json.loads\<close>.
\<close>

definition loads :: "runtime \<Rightarrow> json_text \<Rightarrow> exn + json" where
  "loads rt text = (case text of Dumps v \<Rightarrow> Inr v | Raw s \<Rightarrow> json_loads rt s)"

definition query_pubmed_realtime :: "runtime \<Rightarrow> 's index \<Rightarrow> 's \<Rightarrow> pystr \<Rightarrow> json_text \<times> 's" where
  "query_pubmed_realtime rt idx s query =
     (case search_pubmed_ids idx s query True of
        (pmids, s1) \<Rightarrow>
          (case (if pmids = [] then search_pubmed_ids idx s1 query False else (pmids, s1)) of
             (pmids, s2) \<Rightarrow>
               if pmids = []
               then (Dumps (JObj [(str ''status'', JStr (str ''error'')), (str ''message'', JStr (str ''No results found.''))]), s2)
               else
                 (case fetch_article_details rt idx s2 pmids of
                    (articles, s3) \<Rightarrow>
                      (Dumps (JObj [(str ''status'', JStr (str ''success'')),
                                    (str ''evidence_count'', JInt (int (length articles))),
                                    (str ''articles'', JArr articles)]), s3))))"

section \<open>The agents\<close>

record patient =
  condition_tags :: "pystr list option"

text \<open>
  Of the patient's data the agents read the key \<open>condition_tags\<close>, a list of strings
  that may be absent.
\<close>

record agent_state =
  patient_id :: pystr
  doctor_query :: pystr
  patient_data :: patient
  research_evidence :: json_text
  jan_aushadhi_result :: dict
  final_response :: json

definition search_terms :: "pystr \<Rightarrow> pystr \<Rightarrow> pystr list" where
  "search_terms query conditions_str =
     [query @ (str '' '') @ conditions_str @ (str '' contraindications adverse effects''),
      query @ (str '' '') @ conditions_str @ (str '' safety''),
      query @ (str '' chronic kidney disease''),
      query @ (str '' clinical guidelines'')]"

definition found_articles :: "runtime \<Rightarrow> json_text \<Rightarrow> exn + bool" where
  \<comment> \<open>\<open>evidence_data.get('status') == 'success' and
      len(evidence_data.get('articles', [])) > 0\<close>, for
      \<open>evidence_data = json.loads(evidence)\<close>\<close>
  "found_articles rt evidence =
     (case loads rt evidence of
        Inl e \<Rightarrow> Inl e
      | Inr evidence_data \<Rightarrow>
          (case evidence_data of
             JObj d \<Rightarrow>
               if get d (str ''status'') JNull = JStr (str ''success'')
               then (case py_len (get d (str ''articles'') (JArr [])) of
                       Inl e \<Rightarrow> Inl e
                     | Inr n \<Rightarrow> Inr (0 < n))
               else Inr False
           | _ \<Rightarrow> Inl (AttributeError evidence_data)))"

fun try_searches ::
  "runtime \<Rightarrow> 's index \<Rightarrow> 's \<Rightarrow> pystr list \<Rightarrow> json_text option \<Rightarrow> (exn + json_text option) \<times> 's" where
  \<comment> \<open>the loop over \<open>search_terms\<close>; the last argument is \<open>evidence\<close>\<close>
  "try_searches rt idx s [] evidence = (Inr evidence, s)"
| "try_searches rt idx s (search_term # terms) evidence =
     (case query_pubmed_realtime rt idx s search_term of
        (ev, s') \<Rightarrow>
          (case found_articles rt ev of
             Inl e \<Rightarrow> (Inl e, s')
           | Inr True \<Rightarrow> (Inr (Some ev), s')
           | Inr False \<Rightarrow> try_searches rt idx s' terms (Some ev)))"

definition research_agent ::
  "runtime \<Rightarrow> 's index \<Rightarrow> catalog_file \<Rightarrow> 's \<Rightarrow> agent_state \<Rightarrow> (exn + json_text \<times> dict) \<times> 's" where
  \<comment> \<open>the result is the pair \<open>(research_evidence, jan_aushadhi_result)\<close> of the
      returned dictionary\<close>
  "research_agent rt idx file s state =
     (let query = doctor_query state;
          patient_context = (case condition_tags (patient_data state) of None \<Rightarrow> [] | Some ts \<Rightarrow> ts)
      in case search_jan_aushadhi rt file query None of
           Inl e \<Rightarrow> (Inl e, s)
         | Inr jan_result \<Rightarrow>
             (let conditions_str = (if patient_context \<noteq> [] then join (str '' '') patient_context else [])
              in case try_searches rt idx s (search_terms query conditions_str) None of
                   (Inl e, s') \<Rightarrow> (Inl e, s')
                 | (Inr evidence, s') \<Rightarrow>
                     (Inr (case evidence of
                             None \<Rightarrow> Dumps (JObj [(str ''status'', JStr (str ''error'')),
                                                  (str ''message'', JStr (str ''No results found.''))])
                           | Some ev \<Rightarrow> if ev = Raw [] then
                                          Dumps (JObj [(str ''status'', JStr (str ''error'')),
                                                       (str ''message'', JStr (str ''No results found.''))])
                                        else ev,
                           jan_result), s')))"

function remove_all :: "pystr \<Rightarrow> pystr \<Rightarrow> pystr" where
  \<comment> \<open>\<open>s.replace(old, "")\<close>\<close>
  "remove_all old s =
     (if old \<noteq> [] \<and> s \<noteq> []
      then (if prefix old s then remove_all old (drop (length old) s)
            else hd s # remove_all old (tl s))
      else s)"
  by pat_completeness auto
termination
  by (relation "measure (\<lambda>(old, s). length s)") auto

definition fence :: pystr where
  \<comment> \<open>three backquotes\<close>
  "fence = [0x60, 0x60, 0x60]"

definition clean_reply :: "pystr \<Rightarrow> pystr" where
  \<comment> \<open>\<open>clean_json_text\<close>\<close>
  "clean_reply content = strip (remove_all fence (remove_all (fence @ (str ''json'')) content))"

definition extract_articles :: "runtime \<Rightarrow> json_text \<Rightarrow> json" where
  \<comment> \<open>\<open>pubmed_articles\<close>: the first \<open>try\<close> block of \<open>safety_agent\<close>\<close>
  "extract_articles rt evidence =
     (case loads rt evidence of
        Inl e \<Rightarrow> JArr []
      | Inr evidence_data \<Rightarrow>
          (case evidence_data of
             JObj d \<Rightarrow>
               if get d (str ''status'') JNull = JStr (str ''success'') then get d (str ''articles'') (JArr [])
               else JArr []
           | _ \<Rightarrow> JArr []))"

definition repair_savings :: "runtime \<Rightarrow> dict \<Rightarrow> json \<Rightarrow> exn + json" where
  \<comment> \<open>the \<open>if\<close> that forces the tool's result into the draft \<open>final_decision\<close>\<close>
  "repair_savings rt jan final_decision =
     (if truthy (get jan (str ''found'') JNull) then
        (case subscript final_decision (str ''status'') of
           Inl e \<Rightarrow> Inl e
         | Inr status \<Rightarrow>
             if status \<noteq> JStr (str ''blocked'') then
               (case subscript (JObj jan) (str ''drug_data'') of
                  Inl e \<Rightarrow> Inl e
                | Inr tool_data \<Rightarrow>
                    (case tool_data of
                       JObj td \<Rightarrow>
                         set_item final_decision (str ''savings'')
                           (JObj [(str ''found'', JBool True),
                                  (str ''text'', JStr
                                     (str ''Save '' @ format_value rt (get td (str ''savings_amount'') (JStr (str ''money'')))
                                      @ (str '' by switching to Jan Aushadhi '')
                                      @ format_value rt (get td (str ''generic_name'') (JStr (str ''alternative'')))
                                      @ (str ''.'')))])
                     | _ \<Rightarrow> Inl (AttributeError tool_data)))
             else Inr final_decision)
      else Inr final_decision)"

definition draft_verdict :: "runtime \<Rightarrow> exn + pystr \<Rightarrow> dict \<Rightarrow> json \<Rightarrow> exn + json" where
  \<comment> \<open>the body of the second \<open>try\<close> block; \<open>reply\<close> is what
      \<open>llm.invoke(...).content\<close> gives for the prompt, a text or an exception\<close>
  "draft_verdict rt reply jan pubmed_articles =
     (case reply of
        Inl e \<Rightarrow> Inl e
      | Inr content \<Rightarrow>
          (case json_loads rt (clean_reply content) of
             Inl e \<Rightarrow> Inl e
           | Inr final_decision \<Rightarrow>
               (case repair_savings rt jan final_decision of
                  Inl e \<Rightarrow> Inl e
                | Inr repaired \<Rightarrow> set_item repaired (str ''sources'') pubmed_articles)))"

definition safety_agent :: "runtime \<Rightarrow> bool \<Rightarrow> exn + pystr \<Rightarrow> agent_state \<Rightarrow> json" where
  \<comment> \<open>the second argument is \<open>USE_LLM\<close>; the result is the value of the key
      \<open>final_response\<close> of the returned dictionary\<close>
  "safety_agent rt use_llm reply state =
     (let pubmed_articles = extract_articles rt (research_evidence state)
      in if \<not> use_llm then
           JObj [(str ''status'', JStr (str ''approved'')),
                 (str ''title'', JStr (str ''Manual Review Recommended'')),
                 (str ''message'', JStr (str ''Query: '' @ doctor_query state
                    @ (str ''. Please review PubMed evidence and patient history manually.''))),
                 (str ''evidence'', JStr (str ''LLM not configured - using fallback mode'')),
                 (str ''suggestion'', JNull),
                 (str ''savings'',
                    if truthy (get (jan_aushadhi_result state) (str ''found'') JNull)
                    then JObj (jan_aushadhi_result state)
                    else JObj [(str ''found'', JBool False)]),
                 (str ''sources'', pubmed_articles)]
         else
           (case draft_verdict rt reply (jan_aushadhi_result state) pubmed_articles of
              Inr final_decision \<Rightarrow> final_decision
            | Inl e \<Rightarrow>
                JObj [(str ''status'', JStr (str ''caution'')),
                      (str ''title'', JStr (str ''Analysis Error'')),
                      (str ''message'', JStr
                         (str ''Could not complete automated safety check. Please review guidelines manually.'')),
                      (str ''evidence'', JStr (str ''System Error: '' @ exn_text rt e)),
                      (str ''suggestion'', JNull),
                      (str ''savings'', JObj [(str ''found'', JBool False)]),
                      (str ''sources'', pubmed_articles)]))"

section \<open>Vocabulary of the properties\<close>

definition well_formed_result :: "dict \<Rightarrow> bool" where
  \<comment> \<open>a boolean \<open>found\<close>, a string \<open>message\<close>, and a dictionary \<open>drug_data\<close>
      exactly when \<open>found\<close> is true\<close>
  "well_formed_result r =
     (case (map_of r (str ''found''), map_of r (str ''message'')) of
        (Some (JBool b), Some (JStr m)) \<Rightarrow>
          (case map_of r (str ''drug_data'') of
             None \<Rightarrow> \<not> b
           | Some (JObj d) \<Rightarrow> b
           | Some _ \<Rightarrow> False)
      | _ \<Rightarrow> False)"

definition priced :: "runtime \<Rightarrow> catalog_entry \<Rightarrow> bool" where
  \<comment> \<open>the entry has a generic name, and both of its prices convert to floats\<close>
  "priced rt e =
     (generic_name e \<noteq> None
      \<and> (case price rt (jan_price e) of Inl _ \<Rightarrow> False | Inr _ \<Rightarrow> True)
      \<and> (case price rt (market_avg_price e) of Inl _ \<Rightarrow> False | Inr _ \<Rightarrow> True))"

definition best_alias :: "runtime \<Rightarrow> pystr \<Rightarrow> pystr list \<Rightarrow> rat \<Rightarrow> pystr" where
  \<comment> \<open>the first alias that reaches the best brand score; the empty string when no
      alias scores above 0\<close>
  "best_alias rt q brands brand_score =
     (if brand_score = 0 then []
      else case find (\<lambda>b. get_similarity_score rt q b = brand_score) brands of
             None \<Rightarrow> [] | Some b \<Rightarrow> b)"

definition search_phase :: "'s index \<Rightarrow> 's \<Rightarrow> pystr \<Rightarrow> pystr list \<times> 's" where
  \<comment> \<open>the identifiers of the search phase and the state it leaves the index in: the
      strict search, and the relaxed one when the strict search finds none\<close>
  "search_phase idx s query =
     (case search_pubmed_ids idx s query True of
        (pmids, s1) \<Rightarrow> if pmids = [] then search_pubmed_ids idx s1 query False else (pmids, s1))"

definition article_count :: "json_text \<Rightarrow> nat" where
  \<comment> \<open>the number of articles in a retrieval output; 0 when it holds no article list\<close>
  "article_count ev =
     (case ev of
        Dumps (JObj r) \<Rightarrow> (case map_of r (str ''articles'') of Some (JArr articles) \<Rightarrow> length articles | _ \<Rightarrow> 0)
      | _ \<Rightarrow> 0)"

fun zero_results :: "runtime \<Rightarrow> 's index \<Rightarrow> 's \<Rightarrow> pystr list \<Rightarrow> 's option" where
  \<comment> \<open>the state of the index after the given variants are retrieved in order, when the
      output of each holds no article\<close>
  "zero_results rt idx s [] = Some s"
| "zero_results rt idx s (search_term # terms) =
     (case query_pubmed_realtime rt idx s search_term of
        (ev, s') \<Rightarrow> if article_count ev = 0 then zero_results rt idx s' terms else None)"

section \<open>A sample runtime and sample inputs\<close>

text \<open>
  A runtime, catalog entries (\<open>mock_db\<close> is the one of the test area of
  \<open>tools.py\<close>), two literature indexes and agent states, at which the properties
  below are evaluated. The sample runtime maps the case of ASCII letters, renders a
  finite number in decimal, rounded half up, which is what Python prints for the prices
  used here, and converts and rounds exactly; its \<open>json.loads\<close> knows one text.
\<close>

definition sample_lower :: "pystr \<Rightarrow> pystr" where
  "sample_lower s = map (\<lambda>c. if 65 \<le> c \<and> c \<le> 90 then c + 32 else c) s"

definition sample_upper :: "pystr \<Rightarrow> pystr" where
  "sample_upper s = map (\<lambda>c. if 97 \<le> c \<and> c \<le> 122 then c - 32 else c) s"

function show_digits :: "int \<Rightarrow> pystr" where
  "show_digits n = (if n < 10 then [48 + n] else show_digits (n div 10) @ [48 + n mod 10])"
  by pat_completeness auto
termination
  by (relation "measure nat") auto

fun pow10 :: "nat \<Rightarrow> int" where
  "pow10 0 = 1"
| "pow10 (Suc n) = 10 * pow10 n"

definition scaled :: "nat \<Rightarrow> rat \<Rightarrow> int" where
  "scaled n x = \<lfloor>\<bar>x\<bar> * of_int (pow10 n) + 1 / 2\<rfloor>"

definition pad_left :: "nat \<Rightarrow> pystr \<Rightarrow> pystr" where
  "pad_left n digits = replicate (n - length digits) 48 @ digits"

definition sample_fixed :: "nat \<Rightarrow> pyfloat \<Rightarrow> pystr" where
  "sample_fixed n v =
     (case v of
        Fin x \<Rightarrow>
          (if x < 0 then str ''-'' else []) @ show_digits (scaled n x div pow10 n)
          @ (if n = 0 then [] else str ''.'' @ pad_left n (show_digits (scaled n x mod pow10 n)))
      | PInf \<Rightarrow> str ''inf''
      | NInf \<Rightarrow> str ''-inf''
      | NaN \<Rightarrow> str ''nan'')"

definition sample_repr :: "json \<Rightarrow> pystr" where
  "sample_repr v =
     (case v of
        JNull \<Rightarrow> str ''None''
      | JBool b \<Rightarrow> (if b then str ''True'' else str ''False'')
      | JInt n \<Rightarrow> (if n < 0 then str ''-'' else []) @ show_digits \<bar>n\<bar>
      | JFloat x \<Rightarrow> sample_fixed 1 x
      | _ \<Rightarrow> str ''...'')"

definition sample_draft_text :: pystr where
  "sample_draft_text =
     str ''{'' @ dquote @ str ''status'' @ dquote @ str '': '' @ dquote @ str ''approved'' @ dquote
     @ str '', '' @ dquote @ str ''savings'' @ dquote @ str '': {'' @ dquote @ str ''found'' @ dquote
     @ str '': false}}''"

definition sample_draft :: json where
  "sample_draft =
     JObj [(str ''status'', JStr (str ''approved'')), (str ''savings'', JObj [(str ''found'', JBool False)])]"

definition sample_loads :: "pystr \<Rightarrow> exn + json" where
  "sample_loads s =
     (if s = sample_draft_text then Inr sample_draft
      else Inl (External (str ''Expecting value: line 1 column 1 (char 0)'')))"

definition sample_exn_text :: "exn \<Rightarrow> pystr" where
  "sample_exn_text e =
     (case e of
        KeyError k \<Rightarrow> [0x27] @ k @ [0x27]
      | External m \<Rightarrow> m
      | TypeError v \<Rightarrow> str ''unsupported operand''
      | AttributeError v \<Rightarrow> str ''no such attribute''
      | ValueError v \<Rightarrow> str ''could not convert string to float''
      | OverflowError v \<Rightarrow> str ''int too large to convert to float'')"

definition sample_runtime :: runtime where
  "sample_runtime =
     \<lparr>lower = sample_lower, upper = sample_upper, repr = sample_repr, fixed = sample_fixed,
      json_loads = sample_loads, exn_text = sample_exn_text,
      float_of_int = (\<lambda>n. Inr (Fin (of_int n))),
      float_of_str = (\<lambda>s. Inl (ValueError (JStr s))),
      round_float = Fin\<rparr>"

definition atorvastatin :: catalog_entry where
  "atorvastatin =
     \<lparr>generic_name = Some (str ''Atorvastatin''),
      common_brands = Some [str ''Lipitor'', str ''Storvas''],
      jan_price = Some (JInt 12), market_avg_price = Some (JInt 140),
      savings_percentage = Some (JStr (str ''91%''))\<rparr>"

definition mock_db :: "catalog_entry list" where
  "mock_db = [atorvastatin]"

definition overpriced :: catalog_entry where
  "overpriced =
     \<lparr>generic_name = Some (str ''Atorvastatin''),
      common_brands = Some [str ''Lipitor'', str ''Storvas''],
      jan_price = Some (JInt 200), market_avg_price = Some (JInt 140),
      savings_percentage = Some (JStr (str ''0%''))\<rparr>"

definition overpriced_db :: "catalog_entry list" where
  "overpriced_db = [overpriced]"

definition nan_priced :: catalog_entry where
  \<comment> \<open>an entry whose catalog price is the JSON literal \<open>NaN\<close>\<close>
  "nan_priced =
     \<lparr>generic_name = Some (str ''Atorvastatin''),
      common_brands = Some [str ''Lipitor'', str ''Storvas''],
      jan_price = Some (JFloat NaN), market_avg_price = Some (JInt 140),
      savings_percentage = Some (JStr (str ''91%''))\<rparr>"

definition nan_db :: "catalog_entry list" where
  "nan_db = [nan_priced]"

definition tied_entry :: catalog_entry where
  "tied_entry =
     \<lparr>generic_name = Some (str ''Atorvastatin Calcium''),
      common_brands = Some [str ''Atorvastatin Tablets''],
      jan_price = Some (JInt 12), market_avg_price = Some (JInt 140),
      savings_percentage = Some (JStr (str ''91%''))\<rparr>"

definition amla :: catalog_entry where
  "amla =
     \<lparr>generic_name = Some (str ''Amla Churna''), common_brands = None,
      jan_price = Some (JInt 30), market_avg_price = Some (JInt 95),
      savings_percentage = Some (JStr (str ''68%''))\<rparr>"

definition paracetamol :: catalog_entry where
  "paracetamol =
     \<lparr>generic_name = Some (str ''Paracetamol''),
      common_brands = Some [str ''Crocin'', str ''Paracetamol''],
      jan_price = Some (JInt 5), market_avg_price = Some (JInt 20),
      savings_percentage = Some (JStr (str ''75%''))\<rparr>"

definition counting_index ::
  "(pystr \<Rightarrow> pystr list option) \<Rightarrow> (pystr list \<Rightarrow> article_elem list option) \<Rightarrow> nat index" where
  \<comment> \<open>an index whose state is the number of requests it has served\<close>
  "counting_index search fetch =
     \<lparr>esearch = (\<lambda>s final_query. (search final_query, s + 1)),
      efetch = (\<lambda>s id_list. (fetch id_list, s + 1))\<rparr>"

definition sample_article :: article_elem where
  "sample_article =
     \<lparr>pmid_elem = Some (Some (str ''31452104'')),
      title_elem = Some (Some (str ''Diclofenac and <i>renal</i> function'')),
      iso_abbreviation_elem = None,
      journal_title_elem = Some (Some (str ''Kidney International'')),
      pub_date_elem = Some \<lparr>year_elem = Some (Some (str ''2019'')), month_elem = None\<rparr>,
      abstract_texts = [(Some (str ''Background''), Some (str ''NSAIDs reduce renal blood flow.''))]\<rparr>"

definition sample_article_json :: json where
  \<comment> \<open>the article record that \<open>format_article\<close> makes of \<open>sample_article\<close>\<close>
  "sample_article_json =
     JObj [(str ''pmid'', JStr (str ''31452104'')),
           (str ''title'', JStr (str ''Diclofenac and renal function'')),
           (str ''journal'', JStr (str ''Kidney International'')),
           (str ''pub_date'', JStr (str ''2019'')),
           (str ''abstract'', JStr (str ''BACKGROUND: NSAIDs reduce renal blood flow.'')),
           (str ''url'', JStr (str ''https://pubmed.ncbi.nlm.nih.gov/31452104/''))]"

definition fetchless_index :: "nat index" where
  \<comment> \<open>every search finds an identifier, every fetch fails\<close>
  "fetchless_index = counting_index (\<lambda>final_query. Some [str ''31452104'']) (\<lambda>id_list. None)"

definition staged_index :: "nat index" where
  \<comment> \<open>a query about contraindications finds an identifier whose fetch fails, a query
      about chronic kidney disease finds an identifier whose fetch gives
      \<open>sample_article\<close>, and any other query finds nothing\<close>
  "staged_index =
     counting_index
       (\<lambda>final_query.
          if sublist (str ''contraindications'') final_query then Some [str ''999'']
          else if sublist (str ''chronic kidney disease'') final_query then Some [str ''31452104'']
          else Some [])
       (\<lambda>id_list. if id_list = [str ''999''] then None else Some [sample_article])"

definition sample_state :: agent_state where
  "sample_state =
     \<lparr>patient_id = str ''PAT-001'', doctor_query = str ''Prescribe Diclofenac 50mg for joint pain'',
      patient_data = \<lparr>condition_tags = None\<rparr>, research_evidence = Raw [],
      jan_aushadhi_result = [], final_response = JObj []\<rparr>"

definition matched_result :: dict where
  \<comment> \<open>what \<open>search_jan_aushadhi\<close> returns for \<open>Lipitor\<close> in \<open>mock_db\<close>\<close>
  "matched_result =
     [(str ''found'', JBool True),
      (str ''drug_data'', JObj
         [(str ''generic_name'', JStr (str ''Atorvastatin'')),
          (str ''brand_name_detected'', JStr (str ''Lipitor'')),
          (str ''match_source'', JStr (str ''Brand Match (Lipitor)'')),
          (str ''jan_aushadhi_price'', JStr (rupee @ str ''12.0'')),
          (str ''market_average_price'', JStr (rupee @ str ''140.0'')),
          (str ''savings_amount'', JStr (rupee @ str ''128.00'')),
          (str ''savings_percentage'', JStr (str ''91%''))]),
      (str ''message'', JStr
         (str ''Switch Available: Jan Aushadhi Atorvastatin costs '' @ rupee @ str ''12.0 (vs '' @ rupee
          @ str ''140.0). Save '' @ rupee @ str ''128.00.''))]"

definition matched_state :: agent_state where
  \<comment> \<open>the state after a research step that found one article and, in the catalog of the
      test area, a substitute for \<open>Lipitor\<close>\<close>
  "matched_state =
     \<lparr>patient_id = str ''PAT-001'', doctor_query = str ''Lipitor'',
      patient_data = \<lparr>condition_tags = None\<rparr>,
      research_evidence =
        Dumps (JObj [(str ''status'', JStr (str ''success'')), (str ''evidence_count'', JInt 1),
                     (str ''articles'', JArr [sample_article_json])]),
      jan_aushadhi_result = matched_result,
      final_response = JObj []\<rparr>"

section \<open>Properties of the similarity score\<close>

lemma str_eq_iff [simp]: "str a = str b \<longleftrightarrow> a = b"
  unfolding str_def by (rule inj_map_eq_map) (rule inj_of_char)

lemma str_Nil_iff [simp]: "str a = [] \<longleftrightarrow> a = []"
  by (simp add: str_def)

subsection \<open>Scores against an empty string\<close>

lemma longest_scan_empty_target: "longest_scan pop xs [] i [] best = best"
  by (induction xs arbitrary: i best) (simp_all add: row_def)

lemma find_longest_match_empty_target: "find_longest_match pop xs [] = (0, 0, 0)"
  by (simp add: find_longest_match_def longest_scan_empty_target)

lemma find_longest_match_empty_query: "find_longest_match pop [] ys = (0, 0, 0)"
  by (simp add: find_longest_match_def)

lemma ratio_empty_target: "xs \<noteq> [] \<Longrightarrow> ratio xs [] = 0"
  by (simp add: ratio_def find_longest_match_empty_target)

lemma ratio_empty_query: "ys \<noteq> [] \<Longrightarrow> ratio [] ys = 0"
  by (simp add: ratio_def find_longest_match_empty_query)

lemma ratio_empty_both: "ratio [] [] = 1"
  by (simp add: ratio_def)

text \<open>
  \<^bold>\<open>C9\<close> (as amended). \<open>get_similarity_score\<close> is a total function of two strings:
  no operation it performs can raise. When the normalised query or the normalised
  target is empty, the score is 0, which is below the threshold of 85, unless both are
  empty: then it is 100.
\<close>

theorem similarity_with_empty_string:
  assumes "strip (lower rt query) = [] \<or> strip (lower rt target) = []"
  shows "get_similarity_score rt query target =
           (if strip (lower rt query) = [] \<and> strip (lower rt target) = [] then 100 else 0)"
proof (cases "strip (lower rt query) = []")
  case True
  then show ?thesis
    by (cases "strip (lower rt target) = []")
       (simp_all add: get_similarity_score_def ratio_empty_both ratio_empty_query)
next
  case False
  with assms have t: "strip (lower rt target) = []" by simp
  with False show ?thesis
    by (simp add: get_similarity_score_def contains_def ratio_empty_target)
qed

text \<open>The theorem at a blank query and the target \<open>Aspirin\<close>.\<close>

theorem similarity_with_empty_string_witness:
  "strip (lower sample_runtime (str ''  '')) = []
   \<and> get_similarity_score sample_runtime (str ''  '') (str ''Aspirin'') = 0
   \<and> get_similarity_score sample_runtime (str ''  '') (str ''Aspirin'') < 85"
proof -
  have e: "strip (lower sample_runtime (str ''  '')) = []" by code_simp
  have n: "strip (lower sample_runtime (str ''Aspirin'')) \<noteq> []" by code_simp
  show ?thesis
    using similarity_with_empty_string [of sample_runtime "str ''  ''" "str ''Aspirin''"] e n by simp
qed

text \<open>
  C9 as stated fails where both strings are empty: the score of the empty query against
  the empty target is 100, not below 85.
\<close>

theorem both_empty_score_counterexample:
  "strip (lower sample_runtime []) = [] \<and> \<not> get_similarity_score sample_runtime [] [] < 85"
  by code_simp

subsection \<open>The substring bonus\<close>

lemma best_brand_fst:
  "fst (best_brand rt q brands (s, b)) = fold max (map (get_similarity_score rt q) brands) s"
  by (induction brands arbitrary: s b) (auto simp: Let_def max_def)

lemma fold_max_ge: "(s::rat) \<le> fold max xs s"
proof (induction xs arbitrary: s)
  case Nil
  then show ?case by simp
next
  case (Cons x xs)
  have "s \<le> max x s" by simp
  also have "\<dots> \<le> fold max xs (max x s)" by (rule Cons.IH)
  finally show ?case by simp
qed

lemma fold_max_cases: "fold max xs (s::rat) = s \<or> fold max xs s \<in> set xs"
proof (induction xs arbitrary: s)
  case Nil
  then show ?case by simp
next
  case (Cons x xs)
  from Cons.IH [of "max x s"] show ?case by (auto simp: max_def split: if_splits)
qed

lemma best_brand_snd:
  "snd (best_brand rt q brands (s, b)) =
     (let S = fold max (map (get_similarity_score rt q) brands) s
      in if S = s then b
         else case find (\<lambda>x. get_similarity_score rt q x = S) brands of None \<Rightarrow> [] | Some x \<Rightarrow> x)"
proof (induction brands arbitrary: s b)
  case Nil
  then show ?case by simp
next
  case (Cons x xs)
  let ?sc = "get_similarity_score rt q x"
  let ?f = "\<lambda>t. fold max (map (get_similarity_score rt q) xs) t"
  show ?case
  proof (cases "?sc > s")
    case True
    then have m: "max ?sc s = ?sc" by simp
    have ge: "?sc \<le> ?f ?sc" by (rule fold_max_ge)
    have ne: "?f ?sc \<noteq> s" using True ge by simp
    show ?thesis
    proof (cases "?f ?sc = ?sc")
      case eq: True
      with True ne show ?thesis using Cons.IH [of ?sc x] by (simp add: Let_def m)
    next
      case neq: False
      then have "?f ?sc \<in> set (map (get_similarity_score rt q) xs)"
        using fold_max_cases [of "map (get_similarity_score rt q) xs" ?sc] by simp
      then obtain y where "y \<in> set xs" "get_similarity_score rt q y = ?f ?sc" by auto
      then have "find (\<lambda>t. get_similarity_score rt q t = ?f ?sc) xs \<noteq> None"
        by (auto simp: find_None_iff)
      with True ne neq show ?thesis using Cons.IH [of ?sc x]
        by (auto simp: Let_def m)
    qed
  next
    case False
    then have m: "max ?sc s = s" by simp
    have ge: "s \<le> ?f s" by (rule fold_max_ge)
    show ?thesis
    proof (cases "?f s = s")
      case True
      with False show ?thesis using Cons.IH [of s b] by (simp add: Let_def m)
    next
      case neq: False
      with ge False have "?sc \<noteq> ?f s" by simp
      with False neq show ?thesis using Cons.IH [of s b] by (simp add: Let_def m)
    qed
  qed
qed

lemma score_record_ge_generic:
  "generic_name E = Some name \<Longrightarrow> get_similarity_score rt q name \<le> fst (score_record rt q E)"
  by (auto simp: score_record_def Let_def split: prod.splits)

lemma scan_records_best:
  "scan_records rt q db (bm, hs, src) = (bm', hs', src') \<Longrightarrow>
   (0 < hs \<longrightarrow> bm \<noteq> None) \<Longrightarrow> 0 \<le> hs \<Longrightarrow> (0 < hs' \<longrightarrow> bm' \<noteq> None) \<and> hs \<le> hs'"
proof (induction db arbitrary: bm hs src)
  case Nil
  then show ?case by simp
next
  case (Cons r db)
  obtain s c where sc: "score_record rt q r = (s, c)" by (cases "score_record rt q r") auto
  show ?case
  proof (cases "s > hs")
    case True
    with Cons.prems sc have "scan_records rt q db (Some r, s, c) = (bm', hs', src')" by simp
    from Cons.IH [OF this] True Cons.prems(3) show ?thesis by auto
  next
    case False
    with Cons.prems sc have "scan_records rt q db (bm, hs, src) = (bm', hs', src')" by simp
    from Cons.IH [OF this] Cons.prems(2,3) show ?thesis by auto
  qed
qed

lemma scan_records_member:
  "scan_records rt q db (bm, hs, src) = (Some best, hs', src') \<Longrightarrow> bm = Some best \<or> best \<in> set db"
proof (induction db arbitrary: bm hs src)
  case Nil
  then show ?case by simp
next
  case (Cons r db)
  obtain s c where sc: "score_record rt q r = (s, c)" by (cases "score_record rt q r") auto
  show ?case
  proof (cases "s > hs")
    case True
    with Cons.prems sc have "scan_records rt q db (Some r, s, c) = (Some best, hs', src')" by simp
    from Cons.IH [OF this] show ?thesis by auto
  next
    case False
    with Cons.prems sc have "scan_records rt q db (bm, hs, src) = (Some best, hs', src')" by simp
    from Cons.IH [OF this] show ?thesis by auto
  qed
qed

text \<open>
  \<^bold>\<open>C3\<close> (as amended). For every catalog entry \<open>E\<close> with generic name \<open>name\<close> and every
  query \<open>Q\<close> whose normalised form (lower case, trimmed) is longer than 4 and is a
  contiguous part of the normalised \<open>name\<close>, the score of \<open>Q\<close> against \<open>name\<close> is at
  least 95, and so is the best score of the search of the catalog \<open>[E]\<close>.
\<close>

theorem substring_bonus:
  assumes "4 < length (strip (lower rt Q))"
    and "contains (strip (lower rt Q)) (strip (lower rt name))"
    and "generic_name E = Some name"
  shows "95 \<le> get_similarity_score rt Q name
         \<and> 95 \<le> fst (snd (scan_records rt Q [E] (None, 0, [])))"
proof -
  from assms(1,2) have g: "95 \<le> get_similarity_score rt Q name"
    by (simp add: get_similarity_score_def Let_def)
  obtain s src where sc: "score_record rt Q E = (s, src)" by (cases "score_record rt Q E") auto
  with g score_record_ge_generic [OF assms(3), of rt Q] have "95 \<le> s" by simp
  with sc g show ?thesis by simp
qed

text \<open>The theorem at the query \<open>Atorvastatin\<close> and the generic name \<open>Atorvastatin Calcium\<close>.\<close>

theorem substring_bonus_witness:
  "4 < length (strip (lower sample_runtime (str ''Atorvastatin'')))
   \<and> contains (strip (lower sample_runtime (str ''Atorvastatin'')))
        (strip (lower sample_runtime (str ''Atorvastatin Calcium'')))
   \<and> 95 \<le> get_similarity_score sample_runtime (str ''Atorvastatin'') (str ''Atorvastatin Calcium'')
   \<and> 95 \<le> fst (snd (scan_records sample_runtime (str ''Atorvastatin'') [tied_entry] (None, 0, [])))"
proof -
  have a: "4 < length (strip (lower sample_runtime (str ''Atorvastatin'')))" by code_simp
  have b: "contains (strip (lower sample_runtime (str ''Atorvastatin'')))
        (strip (lower sample_runtime (str ''Atorvastatin Calcium'')))" by code_simp
  have c: "generic_name tied_entry = Some (str ''Atorvastatin Calcium'')" by (simp add: tied_entry_def)
  show ?thesis using substring_bonus [OF a b c] a b by simp
qed

text \<open>
  C3 as stated takes the length and the substring relation of the query as it is
  given: the query \<open>Amla\<close> followed by a space has length 5 and is a part of
  \<open>Amla Churna\<close>, but it is trimmed to 4 characters and its score is below 95.
\<close>

theorem padded_query_counterexample:
  "4 < length (str ''Amla '') \<and> contains (str ''Amla '') (str ''Amla Churna'')
   \<and> generic_name amla = Some (str ''Amla Churna'')
   \<and> get_similarity_score sample_runtime (str ''Amla '') (str ''Amla Churna'') < 95
   \<and> fst (snd (scan_records sample_runtime (str ''Amla '') [amla] (None, 0, []))) < 95"
  by code_simp

section \<open>Properties of the catalog search\<close>

text \<open>
  \<^bold>\<open>C4\<close> (as amended). For every catalog entry the generic-name score is used, and the
  provenance is the generic name, only when that score is strictly greater than the best
  brand-alias score (0 when no alias scores above 0). Otherwise, exact ties included, the
  brand score is used and the provenance is \<open>Brand Match\<close> with the first alias that
  reaches the best score.
\<close>

theorem brand_wins_ties:
  "score_record rt q r =
     (let name = (case generic_name r of None \<Rightarrow> [] | Some g \<Rightarrow> g);
          brands = (case common_brands r of None \<Rightarrow> [] | Some bs \<Rightarrow> bs);
          generic_score = get_similarity_score rt q name;
          brand_score = fold max (map (get_similarity_score rt q) brands) 0
      in if brand_score < generic_score then (generic_score, str ''Generic Match ('' @ name @ str '')'')
         else (brand_score, str ''Brand Match ('' @ best_alias rt q brands brand_score @ str '')''))"
proof -
  let ?brands = "case common_brands r of None \<Rightarrow> [] | Some bs \<Rightarrow> bs"
  obtain s b where bb: "best_brand rt q ?brands (0, []) = (s, b)"
    by (cases "best_brand rt q ?brands (0, [])") auto
  have s: "s = fold max (map (get_similarity_score rt q) ?brands) 0"
    using best_brand_fst [of rt q ?brands 0 "[]"] bb by simp
  have b: "b = best_alias rt q ?brands s"
    using best_brand_snd [of rt q ?brands 0 "[]"] bb s by (simp add: best_alias_def Let_def)
  show ?thesis
    unfolding score_record_def using bb s b by (simp add: Let_def)
qed

text \<open>The theorem at an entry whose second alias is its generic name.\<close>

theorem brand_wins_ties_witness:
  "get_similarity_score sample_runtime (str ''paracetamol'') (str ''Paracetamol'') = 100
   \<and> score_record sample_runtime (str ''paracetamol'') paracetamol
       = (100, str ''Brand Match (Paracetamol)'')"
proof -
  have g: "generic_name paracetamol = Some (str ''Paracetamol'')"
    "common_brands paracetamol = Some [str ''Crocin'', str ''Paracetamol'']"
    by (simp_all add: paracetamol_def)
  have s: "get_similarity_score sample_runtime (str ''paracetamol'') (str ''Paracetamol'') = 100"
    by code_simp
  have c: "get_similarity_score sample_runtime (str ''paracetamol'') (str ''Crocin'') = 400 / 17"
    by code_simp
  have a: "best_alias sample_runtime (str ''paracetamol'') [str ''Crocin'', str ''Paracetamol''] 100
             = str ''Paracetamol''"
    by (simp add: best_alias_def s c)
  have e: "str ''Brand Match ('' @ str ''Paracetamol'' @ str '')'' = str ''Brand Match (Paracetamol)''"
    by (simp add: str_def)
  show ?thesis
    using brand_wins_ties [of sample_runtime "str ''paracetamol''" paracetamol]
    by (simp add: g s c a e Let_def)
qed

text \<open>
  C4 as stated fails on an exact tie: the generic name and the alias of \<open>tied_entry\<close>
  both score 95 for the query \<open>atorvastatin\<close>, and the provenance is the alias.
\<close>

theorem generic_loses_tie_counterexample:
  "get_similarity_score sample_runtime (str ''atorvastatin'') (str ''Atorvastatin Calcium'')
     = get_similarity_score sample_runtime (str ''atorvastatin'') (str ''Atorvastatin Tablets'')
   \<and> generic_name tied_entry = Some (str ''Atorvastatin Calcium'')
   \<and> common_brands tied_entry = Some [str ''Atorvastatin Tablets'']
   \<and> score_record sample_runtime (str ''atorvastatin'') tied_entry
       = (95, str ''Brand Match (Atorvastatin Tablets)'')"
  by code_simp

lemma scan_records_initial:
  assumes "scan_records rt q db (None, 0, []) = (bm, hs, src)"
  shows "(0 < hs \<longrightarrow> bm \<noteq> None)" and "\<And>best. bm = Some best \<Longrightarrow> best \<in> set db"
proof -
  show "0 < hs \<longrightarrow> bm \<noteq> None" using scan_records_best [OF assms] by simp
  fix best assume "bm = Some best"
  with assms show "best \<in> set db"
    using scan_records_member [of rt q db None 0 "[]" best hs src] by simp
qed

lemma not_below_zero: "\<not> flt x (Fin 0) \<Longrightarrow> x = NaN \<or> fge x (Fin 0)"
  by (cases x) (simp_all add: flt_def fge_def)

text \<open>
  \<^bold>\<open>C2\<close> (as amended). For every query and every catalog, if \<open>search_jan_aushadhi\<close>
  returns \<open>found = true\<close>, then the best match of the scan scored at least 85, both of
  its prices converted to floats, and its savings (\<open>market_avg_price\<close> minus
  \<open>jan_price\<close>) are not below 0: they are at least 0, or they are NaN. And when the best
  match of a non-empty catalog scores at least 85 and its savings are below 0, the
  result is the not-found result "Generic found but offers no savings.".
\<close>

theorem found_savings_not_negative:
  assumes "db = (case medicine_database of None \<Rightarrow> load_jan_aushadhi_db file | Some d \<Rightarrow> d)"
    and "scan_records rt query_drug db (None, 0, []) = (best_match, highest_score, src)"
  shows "(\<forall>r. search_jan_aushadhi rt file query_drug medicine_database = Inr r
                \<and> map_of r (str ''found'') = Some (JBool True)
            \<longrightarrow> (\<exists>best jan market.
                  best_match = Some best \<and> best \<in> set db \<and> 85 \<le> highest_score
                  \<and> price rt (jan_price best) = Inr jan
                  \<and> price rt (market_avg_price best) = Inr market
                  \<and> \<not> flt (fsub rt market jan) (Fin 0)
                  \<and> (fsub rt market jan = NaN \<or> fge (fsub rt market jan) (Fin 0))))
       \<and> (\<forall>best jan market.
              db \<noteq> [] \<and> best_match = Some best \<and> 85 \<le> highest_score
              \<and> price rt (jan_price best) = Inr jan
              \<and> price rt (market_avg_price best) = Inr market
              \<and> flt (fsub rt market jan) (Fin 0)
            \<longrightarrow> search_jan_aushadhi rt file query_drug medicine_database
                  = Inr [(str ''found'', JBool False),
                         (str ''message'', JStr (str ''Generic found but offers no savings.''))])"
proof (intro conjI allI impI)
  fix r
  assume h: "search_jan_aushadhi rt file query_drug medicine_database = Inr r
             \<and> map_of r (str ''found'') = Some (JBool True)"
  have mem: "\<And>best. best_match = Some best \<Longrightarrow> best \<in> set db"
    using scan_records_initial(2) [OF assms(2)] .
  have "\<exists>best jan market.
          best_match = Some best \<and> best \<in> set db \<and> 85 \<le> highest_score
          \<and> price rt (jan_price best) = Inr jan
          \<and> price rt (market_avg_price best) = Inr market
          \<and> \<not> flt (fsub rt market jan) (Fin 0)"
  proof (cases "db = []")
    case True
    with h assms(1) show ?thesis by (auto simp: search_jan_aushadhi_def)
  next
    case False
    with h assms mem show ?thesis
      by (auto simp: search_jan_aushadhi_def Let_def split: if_splits option.splits sum.splits)
  qed
  then show "\<exists>best jan market.
          best_match = Some best \<and> best \<in> set db \<and> 85 \<le> highest_score
          \<and> price rt (jan_price best) = Inr jan
          \<and> price rt (market_avg_price best) = Inr market
          \<and> \<not> flt (fsub rt market jan) (Fin 0)
          \<and> (fsub rt market jan = NaN \<or> fge (fsub rt market jan) (Fin 0))"
    using not_below_zero by blast
next
  fix best jan market
  assume "db \<noteq> [] \<and> best_match = Some best \<and> 85 \<le> highest_score
          \<and> price rt (jan_price best) = Inr jan
          \<and> price rt (market_avg_price best) = Inr market
          \<and> flt (fsub rt market jan) (Fin 0)"
  with assms show "search_jan_aushadhi rt file query_drug medicine_database
                  = Inr [(str ''found'', JBool False),
                         (str ''message'', JStr (str ''Generic found but offers no savings.''))]"
    by (auto simp: search_jan_aushadhi_def Let_def)
qed

text \<open>
  The theorem at the catalog of the test area, where the match saves 128, and at a
  catalog whose only entry costs more than the market price.
\<close>

theorem found_savings_not_negative_witness:
  "search_jan_aushadhi sample_runtime FileNotFound (str ''Lipitor'') (Some mock_db) = Inr matched_result
   \<and> map_of matched_result (str ''found'') = Some (JBool True)
   \<and> price sample_runtime (jan_price atorvastatin) = Inr (Fin 12)
   \<and> price sample_runtime (market_avg_price atorvastatin) = Inr (Fin 140)
   \<and> fge (fsub sample_runtime (Fin 140) (Fin 12)) (Fin 0)
   \<and> price sample_runtime (jan_price overpriced) = Inr (Fin 200)
   \<and> price sample_runtime (market_avg_price overpriced) = Inr (Fin 140)
   \<and> flt (fsub sample_runtime (Fin 140) (Fin 200)) (Fin 0)
   \<and> search_jan_aushadhi sample_runtime FileNotFound (str ''Lipitor'') (Some overpriced_db)
       = Inr [(str ''found'', JBool False),
              (str ''message'', JStr (str ''Generic found but offers no savings.''))]"
proof -
  have d1: "mock_db = (case Some mock_db of None \<Rightarrow> load_jan_aushadhi_db FileNotFound | Some d \<Rightarrow> d)"
    by simp
  have d2: "overpriced_db
              = (case Some overpriced_db of None \<Rightarrow> load_jan_aushadhi_db FileNotFound | Some d \<Rightarrow> d)"
    by simp
  have s1: "scan_records sample_runtime (str ''Lipitor'') mock_db (None, 0, [])
              = (Some atorvastatin, 100, str ''Brand Match (Lipitor)'')"
    by code_simp
  have s2: "scan_records sample_runtime (str ''Lipitor'') overpriced_db (None, 0, [])
              = (Some overpriced, 100, str ''Brand Match (Lipitor)'')"
    by code_simp
  have r: "search_jan_aushadhi sample_runtime FileNotFound (str ''Lipitor'') (Some mock_db)
             = Inr matched_result"
    by code_simp
  have f: "map_of matched_result (str ''found'') = Some (JBool True)"
    by (simp add: matched_result_def)
  have p: "price sample_runtime (jan_price atorvastatin) = Inr (Fin 12)"
    "price sample_runtime (market_avg_price atorvastatin) = Inr (Fin 140)"
    "price sample_runtime (jan_price overpriced) = Inr (Fin 200)"
    "price sample_runtime (market_avg_price overpriced) = Inr (Fin 140)"
    by (simp_all add: price_def to_float_def sample_runtime_def atorvastatin_def overpriced_def)
  have n: "flt (fsub sample_runtime (Fin 140) (Fin 200)) (Fin 0)"
    by (simp add: fsub_def flt_def sample_runtime_def)
  have nn: "fsub sample_runtime (Fin 140) (Fin 12) \<noteq> NaN"
    by (simp add: fsub_def sample_runtime_def)
  have a: "fge (fsub sample_runtime (Fin 140) (Fin 12)) (Fin 0)"
    using found_savings_not_negative [OF d1 s1] r f p(1,2) nn by auto
  have b: "search_jan_aushadhi sample_runtime FileNotFound (str ''Lipitor'') (Some overpriced_db)
       = Inr [(str ''found'', JBool False),
              (str ''message'', JStr (str ''Generic found but offers no savings.''))]"
    using found_savings_not_negative [OF d2 s2] p(3,4) n
    by (simp add: overpriced_db_def)
  from r f p a n b show ?thesis by simp
qed

text \<open>
  C2 as stated fails at a catalog whose matched entry has the price \<open>NaN\<close>: the
  savings are NaN, the test \<open>savings < 0\<close> is false, and the entry is returned with
  \<open>found = true\<close> although its savings are not at least 0.
\<close>

theorem nan_price_counterexample:
  "map_of (projr (search_jan_aushadhi sample_runtime FileNotFound (str ''Lipitor'') (Some nan_db)))
     (str ''found'') = Some (JBool True)
   \<and> scan_records sample_runtime (str ''Lipitor'') nan_db (None, 0, [])
       = (Some nan_priced, 100, str ''Brand Match (Lipitor)'')
   \<and> price sample_runtime (jan_price nan_priced) = Inr NaN
   \<and> price sample_runtime (market_avg_price nan_priced) = Inr (Fin 140)
   \<and> \<not> fge (fsub sample_runtime (Fin 140) NaN) (Fin 0)"
  by code_simp

text \<open>
  \<^bold>\<open>C10\<close>. Every value that \<open>search_jan_aushadhi\<close> returns has a boolean \<open>found\<close>, a
  string \<open>message\<close>, and a dictionary \<open>drug_data\<close> exactly when \<open>found\<close> is true, on each
  of its four paths. The exceptions it can raise are the \<open>KeyError\<close> for a best match
  that has no \<open>generic_name\<close> and the error of a price that does not convert to a
  float; it returns whenever every entry of the catalog has a name and prices that
  convert.
\<close>

theorem search_result_well_formed:
  "(case search_jan_aushadhi rt file query_drug medicine_database of
      Inl e \<Rightarrow> e = KeyError (str ''generic_name'') \<or> (\<exists>v. to_float rt v = Inl e)
    | Inr r \<Rightarrow> well_formed_result r)
   \<and> (list_all (priced rt)
         (case medicine_database of None \<Rightarrow> load_jan_aushadhi_db file | Some d \<Rightarrow> d)
        \<longrightarrow> (\<exists>r. search_jan_aushadhi rt file query_drug medicine_database = Inr r))"
proof -
  define db where "db = (case medicine_database of None \<Rightarrow> load_jan_aushadhi_db file | Some d \<Rightarrow> d)"
  obtain bm hs src where sc: "scan_records rt query_drug db (None, 0, []) = (bm, hs, src)"
    by (cases "scan_records rt query_drug db (None, 0, [])") auto
  have mem: "\<And>best. bm = Some best \<Longrightarrow> best \<in> set db"
    using scan_records_initial(2) [OF sc] .
  let ?res = "search_jan_aushadhi rt file query_drug medicine_database"
  let ?ok = "(case ?res of
                Inl e \<Rightarrow> e = KeyError (str ''generic_name'') \<or> (\<exists>v. to_float rt v = Inl e)
              | Inr r \<Rightarrow> well_formed_result r)
             \<and> (list_all (priced rt) db \<longrightarrow> (\<exists>r. ?res = Inr r))"
  have ?ok
  proof (cases "db = []")
    case True
    then have "?res = Inr [(str ''found'', JBool False),
                           (str ''message'', JStr (str ''Database unavailable.''))]"
      by (simp add: search_jan_aushadhi_def db_def [symmetric])
    then show ?thesis by (simp add: well_formed_result_def)
  next
    case ne: False
    show ?thesis
    proof (cases "85 \<le> hs")
      case False
      with ne sc have "?res = Inr [(str ''found'', JBool False),
                          (str ''message'', JStr
                             (str ''No direct Jan Aushadhi substitute found. (Best match: ''
                              @ fixed rt 1 (Fin hs) @ str ''%)''))]"
        by (simp add: search_jan_aushadhi_def db_def [symmetric])
      then show ?thesis by (simp add: well_formed_result_def)
    next
      case True
      then obtain best where b: "bm = Some best"
        using scan_records_initial(1) [OF sc] by (cases bm) auto
      show ?thesis
      proof (cases "price rt (jan_price best)")
        case (Inl e)
        with ne sc True b have "?res = Inl e"
          by (simp add: search_jan_aushadhi_def db_def [symmetric])
        moreover have "\<exists>v. to_float rt v = Inl e" using Inl by (auto simp: price_def)
        moreover have "\<not> list_all (priced rt) db"
        proof -
          have "\<not> priced rt best" using Inl by (simp add: priced_def)
          with mem [OF b] show ?thesis by (auto simp: list_all_iff)
        qed
        ultimately show ?thesis by simp
      next
        case jan: (Inr jan)
        show ?thesis
        proof (cases "price rt (market_avg_price best)")
          case (Inl e)
          with ne sc True b jan have "?res = Inl e"
            by (simp add: search_jan_aushadhi_def db_def [symmetric])
          moreover have "\<exists>v. to_float rt v = Inl e" using Inl by (auto simp: price_def)
          moreover have "\<not> list_all (priced rt) db"
          proof -
            have "\<not> priced rt best" using Inl by (simp add: priced_def)
            with mem [OF b] show ?thesis by (auto simp: list_all_iff)
          qed
          ultimately show ?thesis by simp
        next
          case market: (Inr market)
          show ?thesis
          proof (cases "flt (fsub rt market jan) (Fin 0)")
            case neg: True
            with ne sc True b jan market
            have "?res = Inr [(str ''found'', JBool False),
                              (str ''message'', JStr (str ''Generic found but offers no savings.''))]"
              by (simp add: search_jan_aushadhi_def db_def [symmetric] Let_def)
            then show ?thesis by (simp add: well_formed_result_def)
          next
            case pos: False
            show ?thesis
            proof (cases "generic_name best")
              case None
              with ne sc True b jan market pos have "?res = Inl (KeyError (str ''generic_name''))"
                by (simp add: search_jan_aushadhi_def db_def [symmetric] Let_def)
              moreover have "\<not> list_all (priced rt) db"
              proof -
                have "\<not> priced rt best" using None by (simp add: priced_def)
                with mem [OF b] show ?thesis by (auto simp: list_all_iff)
              qed
              ultimately show ?thesis by simp
            next
              case (Some name)
              with ne sc True b jan market pos
              have "\<exists>d m. ?res = Inr [(str ''found'', JBool True), (str ''drug_data'', JObj d),
                                      (str ''message'', JStr m)]"
                by (simp add: search_jan_aushadhi_def db_def [symmetric] Let_def)
              then show ?thesis by (auto simp: well_formed_result_def)
            qed
          qed
        qed
      qed
    qed
  qed
  then show ?thesis by (simp add: db_def)
qed

text \<open>The theorem at the catalog of the test area.\<close>

theorem search_result_well_formed_witness:
  "list_all (priced sample_runtime) mock_db
   \<and> (\<exists>r. search_jan_aushadhi sample_runtime FileNotFound (str ''Lipitor'') (Some mock_db) = Inr r
          \<and> well_formed_result r)"
proof -
  have l: "list_all (priced sample_runtime) mock_db"
    by code_simp
  show ?thesis
    using search_result_well_formed [of sample_runtime FileNotFound "str ''Lipitor''" "Some mock_db"] l
    by auto
qed

section \<open>Properties of the PubMed researcher\<close>

lemma map_of_set_key: "map_of (set_key k v d) k' = (if k' = k then Some v else map_of d k')"
  by (induction d) auto

lemma query_pubmed_realtime_unfold:
  assumes "search_phase idx s q = (pmids, s2)"
  shows "query_pubmed_realtime rt idx s q =
     (if pmids = []
      then (Dumps (JObj [(str ''status'', JStr (str ''error'')),
                         (str ''message'', JStr (str ''No results found.''))]), s2)
      else (Dumps (JObj [(str ''status'', JStr (str ''success'')),
                         (str ''evidence_count'',
                            JInt (int (length (case fst (efetch idx s2 pmids) of
                                                 None \<Rightarrow> []
                                               | Some doc \<Rightarrow> List.map_filter (format_article rt) doc)))),
                         (str ''articles'',
                            JArr (case fst (efetch idx s2 pmids) of
                                    None \<Rightarrow> []
                                  | Some doc \<Rightarrow> List.map_filter (format_article rt) doc))]),
            snd (efetch idx s2 pmids)))"
  using assms
  by (auto simp: query_pubmed_realtime_def search_phase_def fetch_article_details_def
           split: prod.splits if_splits option.splits)

lemma query_pubmed_realtime_not_empty: "fst (query_pubmed_realtime rt idx s q) \<noteq> Raw []"
proof -
  obtain pmids s2 where "search_phase idx s q = (pmids, s2)"
    by (cases "search_phase idx s q") auto
  then show ?thesis by (simp add: query_pubmed_realtime_unfold)
qed

lemma format_article_None: "format_article rt a = None \<longleftrightarrow> pub_date_elem a = None"
  by (simp add: format_article_def Let_def split: option.splits)

lemma length_formatted:
  "length (List.map_filter (format_article rt) doc)
     = length (filter (\<lambda>a. pub_date_elem a \<noteq> None) doc)"
proof (induction doc)
  case Nil
  then show ?case by simp
next
  case (Cons a doc)
  then show ?case
    using format_article_None [of rt a]
    by (cases "format_article rt a") simp_all
qed

text \<open>
  \<^bold>\<open>C1\<close> (as amended). For every query and every behaviour of the literature index, if
  \<open>query_pubmed_realtime\<close> returns a result with status \<open>success\<close>, then the search
  phase (strict, then relaxed) found at least one identifier, the index was asked once
  to fetch those identifiers, the \<open>articles\<close> are the records of its response that have
  a publication date, formatted in order (none when the fetch fails), and
  \<open>evidence_count\<close> is their number. So \<open>evidence_count\<close> is at least 1 exactly when
  the fetch succeeds and returns a record with a publication date, and it is 0 when the
  fetch fails or every record is skipped.
\<close>

theorem success_articles_are_fetched:
  assumes "query_pubmed_realtime rt idx s query = (Dumps (JObj r), s')"
    and "map_of r (str ''status'') = Some (JStr (str ''success''))"
    and "search_phase idx s query = (pmids, s2)"
    and "efetch idx s2 pmids = (response, s3)"
  shows "pmids \<noteq> [] \<and> s' = s3
         \<and> (\<exists>articles.
               map_of r (str ''articles'') = Some (JArr articles)
               \<and> map_of r (str ''evidence_count'') = Some (JInt (int (length articles)))
               \<and> articles = (case response of
                               None \<Rightarrow> []
                             | Some doc \<Rightarrow> List.map_filter (format_article rt) doc)
               \<and> length articles = (case response of
                                      None \<Rightarrow> 0
                                    | Some doc \<Rightarrow> length (filter (\<lambda>a. pub_date_elem a \<noteq> None) doc))
               \<and> (1 \<le> length articles
                    \<longleftrightarrow> (\<exists>doc. response = Some doc \<and> list_ex (\<lambda>a. pub_date_elem a \<noteq> None) doc)))"
proof (cases "pmids = []")
  case True
  with assms(1,2,3) show ?thesis by (auto simp: query_pubmed_realtime_unfold)
next
  case False
  let ?articles = "case response of None \<Rightarrow> [] | Some doc \<Rightarrow> List.map_filter (format_article rt) doc"
  from False assms(1,3,4)
  have r: "r = [(str ''status'', JStr (str ''success'')),
                (str ''evidence_count'', JInt (int (length ?articles))),
                (str ''articles'', JArr ?articles)]"
    and s: "s' = s3"
    by (simp_all add: query_pubmed_realtime_unfold)
  have l: "length ?articles
             = (case response of None \<Rightarrow> 0
                | Some doc \<Rightarrow> length (filter (\<lambda>a. pub_date_elem a \<noteq> None) doc))"
    by (cases response) (simp_all add: length_formatted)
  have e: "1 \<le> length ?articles
             \<longleftrightarrow> (\<exists>doc. response = Some doc \<and> list_ex (\<lambda>a. pub_date_elem a \<noteq> None) doc)"
  proof (cases response)
    case None
    then show ?thesis by simp
  next
    case (Some doc)
    have "1 \<le> length (filter (\<lambda>a. pub_date_elem a \<noteq> None) doc)
            \<longleftrightarrow> list_ex (\<lambda>a. pub_date_elem a \<noteq> None) doc"
      by (induction doc) auto
    with Some l show ?thesis by simp
  qed
  from False s r l e show ?thesis by simp
qed

text \<open>
  The theorem at an index that finds one article for the query: one search and one
  fetch.
\<close>

theorem success_articles_are_fetched_witness:
  "query_pubmed_realtime sample_runtime staged_index 0 (str ''Diclofenac chronic kidney disease'')
     = (Dumps (JObj [(str ''status'', JStr (str ''success'')), (str ''evidence_count'', JInt 1),
                     (str ''articles'', JArr [sample_article_json])]), 2)
   \<and> search_phase staged_index 0 (str ''Diclofenac chronic kidney disease'') = ([str ''31452104''], 1)
   \<and> efetch staged_index 1 [str ''31452104''] = (Some [sample_article], 2)
   \<and> List.map_filter (format_article sample_runtime) [sample_article] = [sample_article_json]"
proof -
  let ?r = "[(str ''status'', JStr (str ''success'')), (str ''evidence_count'', JInt 1),
             (str ''articles'', JArr [sample_article_json])]"
  have q: "query_pubmed_realtime sample_runtime staged_index 0 (str ''Diclofenac chronic kidney disease'')
     = (Dumps (JObj ?r), 2)"
    by code_simp
  have st: "map_of ?r (str ''status'') = Some (JStr (str ''success''))" by simp
  have p: "search_phase staged_index 0 (str ''Diclofenac chronic kidney disease'')
             = ([str ''31452104''], 1)"
    by code_simp
  have f: "efetch staged_index 1 [str ''31452104''] = (Some [sample_article], 2)"
    by code_simp
  from success_articles_are_fetched [OF q st p f]
  have "[sample_article_json] = List.map_filter (format_article sample_runtime) [sample_article]"
    by simp
  with q p f show ?thesis by simp
qed

text \<open>
  C1 as stated fails at an index whose search finds an identifier and whose fetch
  fails: the status is \<open>success\<close>, the count is 0 and there is no article.
\<close>

theorem success_without_articles_counterexample:
  "fst (query_pubmed_realtime sample_runtime fetchless_index 0 (str ''aspirin''))
     = Dumps (JObj [(str ''status'', JStr (str ''success'')), (str ''evidence_count'', JInt 0),
                    (str ''articles'', JArr [])])"
  by code_simp

section \<open>Properties of the agents\<close>

lemma found_articles_of_output:
  assumes "query_pubmed_realtime rt idx s q = (ev, s')"
  shows "found_articles rt ev = Inr (0 < article_count ev)"
    and "0 < article_count ev \<Longrightarrow>
           \<exists>r. ev = Dumps (JObj r) \<and> map_of r (str ''status'') = Some (JStr (str ''success''))"
proof -
  obtain pmids s2 where p: "search_phase idx s q = (pmids, s2)"
    by (cases "search_phase idx s q") auto
  show "found_articles rt ev = Inr (0 < article_count ev)"
    using assms
    by (cases "pmids = []")
       (auto simp: query_pubmed_realtime_unfold [OF p] found_articles_def loads_def get_def
                   py_len_def article_count_def)
  show "\<exists>r. ev = Dumps (JObj r) \<and> map_of r (str ''status'') = Some (JStr (str ''success''))"
    if "0 < article_count ev"
    using assms that
    by (cases "pmids = []")
       (auto simp: query_pubmed_realtime_unfold [OF p] article_count_def)
qed

lemma try_searches_stops:
  assumes "zero_results rt idx s pre = Some s1"
    and "query_pubmed_realtime rt idx s1 search_term = (ev, s2)"
    and "1 \<le> article_count ev"
  shows "try_searches rt idx s (pre @ search_term # post) evidence = (Inr (Some ev), s2)"
  using assms
proof (induction pre arbitrary: s evidence)
  case Nil
  then show ?case using found_articles_of_output(1) [of rt idx s1 search_term ev s2] by simp
next
  case (Cons t pre)
  obtain e s' where q: "query_pubmed_realtime rt idx s t = (e, s')"
    by (cases "query_pubmed_realtime rt idx s t") auto
  with Cons.prems(1) have z: "article_count e = 0" "zero_results rt idx s' pre = Some s1"
    by (auto split: if_splits)
  have f: "found_articles rt e = Inr False"
    using found_articles_of_output(1) [OF q] z(1) by simp
  from Cons.IH [OF z(2) Cons.prems(2,3)] q f show ?case by simp
qed

text \<open>
  \<^bold>\<open>C5\<close>. The research step retrieves its search-term variants in order and stops at the
  first one whose output has status \<open>success\<close> and at least one article: when the
  outputs of the variants before \<open>search_term\<close> each hold no article (a status
  \<open>error\<close>, or a \<open>success\<close> with an empty article list) and the output of
  \<open>search_term\<close> holds one or more, that output has status \<open>success\<close>, the loop ends
  with it as evidence and with the index in the state that retrieval left it in,
  whatever variants follow: none of them is queried. The agent returns that evidence,
  unless the cost check raised before the first query.
\<close>

theorem first_success_stops:
  assumes "patient_context = (case condition_tags (patient_data state) of None \<Rightarrow> [] | Some ts \<Rightarrow> ts)"
    and "search_terms (doctor_query state)
           (if patient_context \<noteq> [] then join (str '' '') patient_context else [])
           = pre @ search_term # post"
    and "zero_results rt idx s pre = Some s1"
    and "query_pubmed_realtime rt idx s1 search_term = (ev, s2)"
    and "1 \<le> article_count ev"
  shows "(\<exists>r. ev = Dumps (JObj r) \<and> map_of r (str ''status'') = Some (JStr (str ''success'')))
         \<and> try_searches rt idx s (pre @ search_term # post) None = (Inr (Some ev), s2)
         \<and> research_agent rt idx file s state
             = (case search_jan_aushadhi rt file (doctor_query state) None of
                  Inl e \<Rightarrow> (Inl e, s)
                | Inr jan_result \<Rightarrow> (Inr (ev, jan_result), s2))"
proof -
  have ne: "ev \<noteq> Raw []"
    using query_pubmed_realtime_not_empty [of rt idx s1 search_term] assms(4) by simp
  have ok: "\<exists>r. ev = Dumps (JObj r) \<and> map_of r (str ''status'') = Some (JStr (str ''success''))"
    using found_articles_of_output(2) [OF assms(4)] assms(5) by simp
  have stop: "try_searches rt idx s (pre @ search_term # post) None = (Inr (Some ev), s2)"
    by (rule try_searches_stops [OF assms(3,4,5)])
  have "research_agent rt idx file s state
             = (case search_jan_aushadhi rt file (doctor_query state) None of
                  Inl e \<Rightarrow> (Inl e, s)
                | Inr jan_result \<Rightarrow> (Inr (ev, jan_result), s2))"
  proof (cases "patient_context = []")
    case True
    with assms(1,2) stop ne show ?thesis
      by (simp add: research_agent_def Let_def split: sum.splits)
  next
    case False
    with assms(1,2) stop ne show ?thesis
      by (simp add: research_agent_def Let_def split: sum.splits)
  qed
  with ok stop show ?thesis by simp
qed

text \<open>
  The theorem at an index where the first variant finds an identifier whose fetch
  fails (a \<open>success\<close> without articles), the second finds nothing, and the third finds
  one article. Each variant costs two requests, and the index has served 6 requests
  when the agent returns: the fourth variant is not queried.
\<close>

theorem first_success_stops_witness:
  "fst (query_pubmed_realtime sample_runtime staged_index 0
          (str ''Prescribe Diclofenac 50mg for joint pain  contraindications adverse effects''))
     = Dumps (JObj [(str ''status'', JStr (str ''success'')), (str ''evidence_count'', JInt 0),
                    (str ''articles'', JArr [])])
   \<and> zero_results sample_runtime staged_index 0
       [str ''Prescribe Diclofenac 50mg for joint pain  contraindications adverse effects'',
        str ''Prescribe Diclofenac 50mg for joint pain  safety''] = Some 4
   \<and> research_agent sample_runtime staged_index FileNotFound 0 sample_state
       = (Inr (Dumps (JObj [(str ''status'', JStr (str ''success'')), (str ''evidence_count'', JInt 1),
                            (str ''articles'', JArr [sample_article_json])]),
               [(str ''found'', JBool False), (str ''message'', JStr (str ''Database unavailable.''))]),
          6)"
proof -
  let ?ev = "Dumps (JObj [(str ''status'', JStr (str ''success'')), (str ''evidence_count'', JInt 1),
                          (str ''articles'', JArr [sample_article_json])])"
  have v: "fst (query_pubmed_realtime sample_runtime staged_index 0
          (str ''Prescribe Diclofenac 50mg for joint pain  contraindications adverse effects''))
     = Dumps (JObj [(str ''status'', JStr (str ''success'')), (str ''evidence_count'', JInt 0),
                    (str ''articles'', JArr [])])"
    by code_simp
  have j: "search_jan_aushadhi sample_runtime FileNotFound (doctor_query sample_state) None
           = Inr [(str ''found'', JBool False), (str ''message'', JStr (str ''Database unavailable.''))]"
    by code_simp
  have c: "[] = (case condition_tags (patient_data sample_state) of None \<Rightarrow> [] | Some ts \<Rightarrow> ts)"
    by (simp add: sample_state_def)
  have t: "search_terms (doctor_query sample_state)
             (if ([]::pystr list) \<noteq> [] then join (str '' '') [] else [])
           = [str ''Prescribe Diclofenac 50mg for joint pain  contraindications adverse effects'',
              str ''Prescribe Diclofenac 50mg for joint pain  safety'']
             @ str ''Prescribe Diclofenac 50mg for joint pain chronic kidney disease''
             # [str ''Prescribe Diclofenac 50mg for joint pain clinical guidelines'']"
    by code_simp
  have z: "zero_results sample_runtime staged_index 0
       [str ''Prescribe Diclofenac 50mg for joint pain  contraindications adverse effects'',
        str ''Prescribe Diclofenac 50mg for joint pain  safety''] = Some 4"
    by code_simp
  have q: "query_pubmed_realtime sample_runtime staged_index 4
             (str ''Prescribe Diclofenac 50mg for joint pain chronic kidney disease'') = (?ev, 6)"
    by code_simp
  have a: "1 \<le> article_count ?ev"
    by code_simp
  show ?thesis
    using first_success_stops [OF c t z q a, of FileNotFound] j v z by simp
qed

lemma found_result_shape:
  assumes "search_jan_aushadhi rt file query_drug medicine_database = Inr jan"
    and "map_of jan (str ''found'') = Some (JBool True)"
  shows "\<exists>name src jp mp amount pct m.
           jan = [(str ''found'', JBool True),
                  (str ''drug_data'', JObj
                     [(str ''generic_name'', JStr name),
                      (str ''brand_name_detected'', JStr query_drug),
                      (str ''match_source'', JStr src),
                      (str ''jan_aushadhi_price'', JStr jp),
                      (str ''market_average_price'', JStr mp),
                      (str ''savings_amount'', JStr amount),
                      (str ''savings_percentage'', pct)]),
                  (str ''message'', JStr m)]"
proof -
  define db where "db = (case medicine_database of None \<Rightarrow> load_jan_aushadhi_db file | Some d \<Rightarrow> d)"
  obtain bm hs src where sc: "scan_records rt query_drug db (None, 0, []) = (bm, hs, src)"
    by (cases "scan_records rt query_drug db (None, 0, [])") auto
  show ?thesis
    using assms sc
    by (auto simp: search_jan_aushadhi_def db_def [symmetric] Let_def
             split: if_splits option.splits sum.splits)
qed

text \<open>
  \<^bold>\<open>C6\<close>. When the result of the Substitute Matcher has \<open>found = true\<close> and the reply of
  the collaborator parses to a draft whose status is not \<open>blocked\<close>, the \<open>savings\<close> of
  the final response are \<open>found = true\<close> with the text built from the savings amount
  and the generic name of the matcher's \<open>drug_data\<close>, whatever the draft held.
\<close>

theorem savings_overwritten:
  assumes "search_jan_aushadhi rt file query_drug medicine_database = Inr jan"
    and "map_of jan (str ''found'') = Some (JBool True)"
    and "jan_aushadhi_result state = jan"
    and "json_loads rt (clean_reply content) = Inr (JObj draft)"
    and "map_of draft (str ''status'') = Some status"
    and "status \<noteq> JStr (str ''blocked'')"
  shows "\<exists>tool_data amount name.
           map_of jan (str ''drug_data'') = Some (JObj tool_data)
           \<and> map_of tool_data (str ''savings_amount'') = Some (JStr amount)
           \<and> map_of tool_data (str ''generic_name'') = Some (JStr name)
           \<and> subscript (safety_agent rt True (Inr content) state) (str ''savings'')
               = Inr (JObj [(str ''found'', JBool True),
                            (str ''text'', JStr (str ''Save '' @ amount
                                                 @ str '' by switching to Jan Aushadhi ''
                                                 @ name @ str ''.''))])"
proof -
  obtain name src jp mp amount pct m where
    jan: "jan = [(str ''found'', JBool True),
                  (str ''drug_data'', JObj
                     [(str ''generic_name'', JStr name),
                      (str ''brand_name_detected'', JStr query_drug),
                      (str ''match_source'', JStr src),
                      (str ''jan_aushadhi_price'', JStr jp),
                      (str ''market_average_price'', JStr mp),
                      (str ''savings_amount'', JStr amount),
                      (str ''savings_percentage'', pct)]),
                  (str ''message'', JStr m)]"
    using found_result_shape [OF assms(1,2)] by blast
  let ?new = "JObj [(str ''found'', JBool True),
                    (str ''text'', JStr (str ''Save '' @ amount
                                         @ str '' by switching to Jan Aushadhi ''
                                         @ name @ str ''.''))]"
  have r: "repair_savings rt jan (JObj draft) = Inr (JObj (set_key (str ''savings'') ?new draft))"
    using assms(5,6)
    by (simp add: repair_savings_def jan truthy_def get_def subscript_def set_item_def format_value_def)
  have "safety_agent rt True (Inr content) state
          = JObj (set_key (str ''sources'') (extract_articles rt (research_evidence state))
                    (set_key (str ''savings'') ?new draft))"
    using assms(3,4) r by (simp add: safety_agent_def draft_verdict_def set_item_def Let_def)
  then have "subscript (safety_agent rt True (Inr content) state) (str ''savings'') = Inr ?new"
    by (simp add: subscript_def map_of_set_key)
  then show ?thesis by (simp add: jan)
qed

text \<open>
  The theorem at a fenced reply whose draft claims \<open>found = false\<close>, with the match of
  the test area.
\<close>

theorem savings_overwritten_witness:
  "json_loads sample_runtime
     (clean_reply (fence @ str ''json'' @ [0x0A] @ sample_draft_text @ [0x0A] @ fence))
     = Inr sample_draft
   \<and> subscript sample_draft (str ''savings'') = Inr (JObj [(str ''found'', JBool False)])
   \<and> search_jan_aushadhi sample_runtime FileNotFound (str ''Lipitor'') (Some mock_db)
       = Inr (jan_aushadhi_result matched_state)
   \<and> subscript
        (safety_agent sample_runtime True
           (Inr (fence @ str ''json'' @ [0x0A] @ sample_draft_text @ [0x0A] @ fence)) matched_state)
        (str ''savings'')
       = Inr (JObj [(str ''found'', JBool True),
                    (str ''text'', JStr (str ''Save '' @ rupee
                       @ str ''128.00 by switching to Jan Aushadhi Atorvastatin.''))])"
proof -
  let ?content = "fence @ str ''json'' @ [0x0A] @ sample_draft_text @ [0x0A] @ fence"
  have j: "search_jan_aushadhi sample_runtime FileNotFound (str ''Lipitor'') (Some mock_db)
             = Inr matched_result"
    by code_simp
  have f: "map_of matched_result (str ''found'') = Some (JBool True)"
    by (simp add: matched_result_def)
  have s: "jan_aushadhi_result matched_state = matched_result"
    by (simp add: matched_state_def)
  have l: "json_loads sample_runtime (clean_reply ?content)
             = Inr (JObj [(str ''status'', JStr (str ''approved'')),
                          (str ''savings'', JObj [(str ''found'', JBool False)])])"
    by code_simp
  have d: "map_of [(str ''status'', JStr (str ''approved'')),
                   (str ''savings'', JObj [(str ''found'', JBool False)])] (str ''status'')
             = Some (JStr (str ''approved''))"
    by simp
  have b: "JStr (str ''approved'') \<noteq> JStr (str ''blocked'')" by simp
  have o: "subscript sample_draft (str ''savings'') = Inr (JObj [(str ''found'', JBool False)])"
    by code_simp
  have e: "str ''Save '' @ (rupee @ str ''128.00'') @ str '' by switching to Jan Aushadhi ''
             @ str ''Atorvastatin'' @ str ''.''
           = str ''Save '' @ rupee @ str ''128.00 by switching to Jan Aushadhi Atorvastatin.''"
    by (simp add: str_def)
  from savings_overwritten [OF j f s l d b] have
    "subscript (safety_agent sample_runtime True (Inr ?content) matched_state) (str ''savings'')
       = Inr (JObj [(str ''found'', JBool True),
                    (str ''text'', JStr (str ''Save '' @ (rupee @ str ''128.00'')
                       @ str '' by switching to Jan Aushadhi '' @ str ''Atorvastatin'' @ str ''.''))])"
    by (auto simp: matched_result_def)
  with e l o j s show ?thesis by (simp add: sample_draft_def)
qed

text \<open>
  \<^bold>\<open>C7\<close>. When the reply of the collaborator, with its fences removed, does not parse,
  the Safety Agent returns the fallback response: status \<open>caution\<close>, and as sources the
  articles extracted from the research evidence (all the articles of an evidence with
  status \<open>success\<close>). The result is a value: the failure is not raised to the caller.
\<close>

theorem unparseable_reply_falls_back:
  assumes "json_loads rt (clean_reply content) = Inl e"
  shows "safety_agent rt True (Inr content) state
           = JObj [(str ''status'', JStr (str ''caution'')),
                   (str ''title'', JStr (str ''Analysis Error'')),
                   (str ''message'', JStr
                      (str ''Could not complete automated safety check. Please review guidelines manually.'')),
                   (str ''evidence'', JStr (str ''System Error: '' @ exn_text rt e)),
                   (str ''suggestion'', JNull),
                   (str ''savings'', JObj [(str ''found'', JBool False)]),
                   (str ''sources'', extract_articles rt (research_evidence state))]
         \<and> (\<forall>count articles.
               research_evidence state
                 = Dumps (JObj [(str ''status'', JStr (str ''success'')), (str ''evidence_count'', count),
                                (str ''articles'', JArr articles)])
               \<longrightarrow> extract_articles rt (research_evidence state) = JArr articles)"
  using assms
  by (simp add: safety_agent_def draft_verdict_def extract_articles_def loads_def get_def Let_def)

text \<open>The theorem at a reply in plain English and an evidence with one article.\<close>

theorem unparseable_reply_falls_back_witness:
  "json_loads sample_runtime (clean_reply (str ''I am sorry, I cannot answer that.''))
     = Inl (External (str ''Expecting value: line 1 column 1 (char 0)''))
   \<and> safety_agent sample_runtime True (Inr (str ''I am sorry, I cannot answer that.'')) matched_state
       = JObj [(str ''status'', JStr (str ''caution'')),
               (str ''title'', JStr (str ''Analysis Error'')),
               (str ''message'', JStr
                  (str ''Could not complete automated safety check. Please review guidelines manually.'')),
               (str ''evidence'', JStr
                  (str ''System Error: '' @ str ''Expecting value: line 1 column 1 (char 0)'')),
               (str ''suggestion'', JNull),
               (str ''savings'', JObj [(str ''found'', JBool False)]),
               (str ''sources'', JArr [sample_article_json])]"
proof -
  have l: "json_loads sample_runtime (clean_reply (str ''I am sorry, I cannot answer that.''))
     = Inl (External (str ''Expecting value: line 1 column 1 (char 0)''))"
    by code_simp
  have x: "exn_text sample_runtime (External (str ''Expecting value: line 1 column 1 (char 0)''))
             = str ''Expecting value: line 1 column 1 (char 0)''"
    by (simp add: sample_runtime_def sample_exn_text_def)
  have r: "research_evidence matched_state
             = Dumps (JObj [(str ''status'', JStr (str ''success'')), (str ''evidence_count'', JInt 1),
                            (str ''articles'', JArr [sample_article_json])])"
    by (simp add: matched_state_def)
  from unparseable_reply_falls_back [OF l, of matched_state] r x l show ?thesis
    by (simp del: append.simps)
qed

text \<open>
  \<^bold>\<open>C8\<close>. Without a configured collaborator the Safety Agent should return a
  \<open>caution\<close> verdict that asks for manual review. The response it returns asks for
  manual review in its title and message, and carries the savings result and the
  sources, but its status is \<open>approved\<close>: here for a state with one article and a
  substitute.
\<close>

theorem unconfigured_verdict_is_approved:
  "search_jan_aushadhi sample_runtime FileNotFound (str ''Lipitor'') (Some mock_db)
     = Inr (jan_aushadhi_result matched_state)
   \<and> safety_agent sample_runtime False (Inl (External [])) matched_state
     = JObj [(str ''status'', JStr (str ''approved'')),
             (str ''title'', JStr (str ''Manual Review Recommended'')),
             (str ''message'', JStr
                (str ''Query: Lipitor. Please review PubMed evidence and patient history manually.'')),
             (str ''evidence'', JStr (str ''LLM not configured - using fallback mode'')),
             (str ''suggestion'', JNull),
             (str ''savings'', JObj (jan_aushadhi_result matched_state)),
             (str ''sources'', JArr [sample_article_json])]"
  by code_simp

end
